theory Spec2Isabelle
  imports Complex_Main "HOL-Library.Word"
begin

unbundle bit_operations_syntax

section \<open>Numbers, vectors and platform descriptors\<close>

text \<open>
  A C++ \<open>float\<close> is modelled by the real number it holds; \<open>XMFLOAT3\<close> and \<open>XMFLOAT4\<close> are
  tuples. Where \<open>Game.cpp\<close> itself computes a \<open>float\<close> from other values (the rotation
  step in \<open>Update\<close>, the mouse deltas in \<open>OnMouseMove\<close>), the rounding of the result to
  binary32 is part of the model, as defined below. The sine in \<open>Update\<close> and the arithmetic
  inside the absent collaborators are kept exact.
\<close>

type_synonym XMFLOAT3 = "real \<times> real \<times> real"
type_synonym XMFLOAT4 = "real \<times> real \<times> real \<times> real"

subsection \<open>Rounding to binary32 and binary64\<close>

text \<open>
  IEEE 754 round-to-nearest, ties to even, onto the binary format with \<open>p\<close> significant
  bits and least exponent \<open>emin\<close> for the last place: \<open>toFloat\<close> is the conversion to
  \<open>float\<close> (24 bits, last place at least \<open>2^-149\<close>), \<open>toDouble\<close> the one to \<open>double\<close>
  (53 bits, \<open>2^-1074\<close>). \<open>floorLog2 x\<close> is, for positive \<open>x\<close>, the \<open>k\<close> with
  \<open>2^k \<le> x < 2^(k+1)\<close>, computed from the bit length of an integer. The overflow to
  infinity of values beyond the largest finite number of the format is not modelled; the
  sums and differences the source rounds stay far below it.
\<close>

fun bitLength :: "nat \<Rightarrow> nat" where
  "bitLength n = (if n = 0 then 0 else Suc (bitLength (n div 2)))"

declare bitLength.simps [simp del]

definition pow2 :: "int \<Rightarrow> real" where
  "pow2 e = (if 0 \<le> e then 2 ^ nat e else 1 / 2 ^ nat (- e))"

definition floorLog2 :: "real \<Rightarrow> int" where
  "floorLog2 x = (if 1 \<le> x then int (bitLength (nat \<lfloor>x\<rfloor>)) - 1
                  else - int (bitLength (nat (\<lceil>1 / x\<rceil> - 1))))"

definition roundHalfEven :: "real \<Rightarrow> int" where
  "roundHalfEven x =
     (let f = \<lfloor>x\<rfloor>; r = x - of_int f
      in if r < 1 / 2 then f else if 1 / 2 < r then f + 1 else if even f then f else f + 1)"

definition roundBinary :: "nat \<Rightarrow> int \<Rightarrow> real \<Rightarrow> real" where
  "roundBinary p emin x =
     (if x = 0 then 0
      else (let e = max emin (floorLog2 \<bar>x\<bar> - (int p - 1))
            in of_int (roundHalfEven (x / pow2 e)) * pow2 e))"

definition toFloat :: "real \<Rightarrow> real" where
  "toFloat = roundBinary 24 (- 149)"

definition toDouble :: "real \<Rightarrow> real" where
  "toDouble = roundBinary 53 (- 1074)"

text \<open>
  A C++ \<open>int\<close> (and the \<open>LONG\<close> of a \<open>POINT\<close>) is a 32-bit word read as signed; \<open>-\<close> on
  it wraps, which is what the target produces where C++ leaves signed overflow undefined.
  \<open>intToFloat\<close> is the conversion of an \<open>int\<close> to \<open>float\<close>; \<open>coord16\<close> holds of the client
  coordinates the window system delivers, which are 16-bit.
\<close>

definition intToFloat :: "32 word \<Rightarrow> real" where
  "intToFloat w = toFloat (real_of_int (sint w))"

definition coord16 :: "32 word \<Rightarrow> bool" where
  "coord16 w = (- 32768 \<le> sint w \<and> sint w \<le> 32767)"

datatype D3D11_BLEND = D3D11_BLEND_ZERO | D3D11_BLEND_ONE
datatype D3D11_BLEND_OP = D3D11_BLEND_OP_NONE | D3D11_BLEND_OP_ADD
datatype D3D11_DEPTH_WRITE_MASK = D3D11_DEPTH_WRITE_MASK_ZERO | D3D11_DEPTH_WRITE_MASK_ALL
datatype D3D11_COMPARISON_FUNC = D3D11_COMPARISON_NONE | D3D11_COMPARISON_LESS
datatype D3D11_TEXTURE_ADDRESS_MODE = D3D11_TEXTURE_ADDRESS_NONE | D3D11_TEXTURE_ADDRESS_WRAP
datatype D3D11_FILTER = D3D11_FILTER_MIN_MAG_MIP_POINT | D3D11_FILTER_ANISOTROPIC

text \<open>The descriptors \<open>Init\<close> fills in; a field the source leaves at \<open>{}\<close> is zero.\<close>

record D3D11_SAMPLER_DESC =
  Filter :: D3D11_FILTER
  AddressU :: D3D11_TEXTURE_ADDRESS_MODE
  AddressV :: D3D11_TEXTURE_ADDRESS_MODE
  AddressW :: D3D11_TEXTURE_ADDRESS_MODE
  MaxAnisotropy :: nat
  MaxLODIsFloatMax :: bool

record D3D11_DEPTH_STENCIL_DESC =
  DepthEnable :: bool
  DepthWriteMask :: D3D11_DEPTH_WRITE_MASK
  DepthFunc :: D3D11_COMPARISON_FUNC

record D3D11_BLEND_DESC =
  AlphaToCoverageEnable :: bool
  IndependentBlendEnable :: bool
  BlendEnable :: bool
  BlendOp :: D3D11_BLEND_OP
  SrcBlend :: D3D11_BLEND
  DestBlend :: D3D11_BLEND
  BlendOpAlpha :: D3D11_BLEND_OP
  SrcBlendAlpha :: D3D11_BLEND
  DestBlendAlpha :: D3D11_BLEND
  RenderTargetWriteMask :: "8 word"

record DirectionalLight =
  AmbietColor :: XMFLOAT4
  DiffuseColor :: XMFLOAT4
  Direction :: XMFLOAT3

text \<open>
  What the program reads from outside itself during \<open>Init\<close>: which compiled shader files
  load, the index count of each model file, and the camera's fixed mouse sensitivity
  (a constant of the absent \<open>Camera.cpp\<close>).
\<close>

record environment =
  shaderFileLoads :: "string \<Rightarrow> bool"
  meshIndexCount :: "string \<Rightarrow> nat"
  cameraSensitivity :: real

text \<open>
  What one \<open>Update\<close> reads from the keyboard: the value \<open>GetAsyncKeyState(VK_ESCAPE)\<close>
  returns (a \<open>SHORT\<close>) and the velocity the camera's movement keys amount to.
\<close>

record frame_input =
  escapeKeyState :: "16 word"
  cameraVelocity :: XMFLOAT3

section \<open>Collaborators of the orchestrator\<close>

subsection \<open>Mesh, Material, Entity\<close>

datatype buffer = VertexBuffer string | IndexBuffer string

datatype shader_ref = VertexShaderObj | PixelShaderObj | ParticleVSObj | ParticlePSObj
datatype mesh_ref = SphereMesh | HelixMesh | CubeMesh
datatype material_ref = Mat1 | Mat2
datatype entity_ref = EntityOne | EntityTwo | EntityThree

text \<open>
  Modelled from the spec: \<open>Mesh\<close> (\<open>Mesh.cpp\<close> is absent) owns a vertex buffer handle, an
  index buffer handle and an index count, immutable after load. The buffers are named by
  the model file they were created from.
\<close>

record Mesh =
  GetVertexBuffer :: buffer
  GetIndexBuffer :: buffer
  GetIndexCount :: nat

text \<open>
  Modelled from the spec: the model loader (absent), given a model file path, returns
  vertex and index buffers and an index count.
\<close>

definition Mesh_new :: "environment \<Rightarrow> string \<Rightarrow> Mesh" where
  "Mesh_new env path =
     \<lparr>GetVertexBuffer = VertexBuffer path, GetIndexBuffer = IndexBuffer path,
      GetIndexCount = meshIndexCount env path\<rparr>"

text \<open>
  Modelled from the spec: \<open>Material\<close> (\<open>Material.cpp\<close> is absent) bundles a shader pair
  with a texture and a sampler. The shaders are held by pointer, here by reference to the
  orchestrator's shader objects; the texture view is named by its image file.
\<close>

record Material =
  matPixelShader :: shader_ref
  matVertexShader :: shader_ref
  matSRV :: string
  matSampler :: D3D11_SAMPLER_DESC

text \<open>
  Modelled from the spec: \<open>Entity\<close> (\<open>Entity.cpp\<close> is absent) pairs a mesh with a material
  and owns position, rotation and scale. The setters change the local transform only;
  \<open>FinalizeMatrix\<close> recomputes the world matrix from the three fields. The world matrix is
  a function of the transform, so the model keeps the transform it was last computed from.
\<close>

record Entity =
  mesh :: mesh_ref
  material :: material_ref
  position :: XMFLOAT3
  rotation :: XMFLOAT3
  scale :: XMFLOAT3
  worldMat :: "XMFLOAT3 \<times> XMFLOAT3 \<times> XMFLOAT3"

text \<open>
  Modelled from the spec: the constructor of \<open>Entity\<close> (absent); the spec names no initial
  transform, which is taken to be the identity (unit scale).
\<close>

definition Entity_new :: "mesh_ref \<Rightarrow> material_ref \<Rightarrow> Entity" where
  "Entity_new m mat =
     \<lparr>mesh = m, material = mat, position = (0, 0, 0), rotation = (0, 0, 0),
      scale = (1, 1, 1), worldMat = ((0, 0, 0), (0, 0, 0), (1, 1, 1))\<rparr>"

text \<open>
  Modelled from the spec: \<open>setPosition\<close>, \<open>setRotation\<close> and \<open>setScale\<close> of \<open>Entity\<close> (absent)
  mutate the local transform fields only, with no immediate recompute.
\<close>

definition SetPosition :: "XMFLOAT3 \<Rightarrow> Entity \<Rightarrow> Entity" where
  "SetPosition p e = e\<lparr>position := p\<rparr>"

definition SetRotation :: "XMFLOAT3 \<Rightarrow> Entity \<Rightarrow> Entity" where
  "SetRotation r e = e\<lparr>rotation := r\<rparr>"

definition SetScale :: "XMFLOAT3 \<Rightarrow> Entity \<Rightarrow> Entity" where
  "SetScale s e = e\<lparr>scale := s\<rparr>"

text \<open>
  Modelled from the spec: \<open>finalizeMatrix\<close> of \<open>Entity\<close> (absent) recomputes the world
  matrix from the three fields.
\<close>

definition FinalizeMatrix :: "Entity \<Rightarrow> Entity" where
  "FinalizeMatrix e = e\<lparr>worldMat := (position e, rotation e, scale e)\<rparr>"

definition vx :: "XMFLOAT3 \<Rightarrow> real" where "vx v = fst v"
definition vy :: "XMFLOAT3 \<Rightarrow> real" where "vy v = fst (snd v)"
definition vz :: "XMFLOAT3 \<Rightarrow> real" where "vz v = snd (snd v)"

subsection \<open>SimpleShader\<close>

text \<open>
  Modelled from the spec: the shader loader (\<open>SimpleShader.cpp\<close> is absent). Given a
  compiled shader file path, \<open>LoadShaderFile\<close> binds the shader and returns true when the
  file loads, and returns false leaving the object as it was otherwise. \<open>shaderFile\<close> is
  the shader resource held inside the wrapper object: \<open>None\<close> is the null resource.
\<close>

record SimpleShader =
  shaderFile :: "string option"

definition SimpleShader_new :: SimpleShader where
  "SimpleShader_new = \<lparr>shaderFile = None\<rparr>"

text \<open>
  Modelled from the spec: \<open>LoadShaderFile\<close> of the shader loader (absent); whether a path
  loads is read from the environment.
\<close>

definition LoadShaderFile :: "environment \<Rightarrow> string \<Rightarrow> SimpleShader \<Rightarrow> bool \<times> SimpleShader" where
  "LoadShaderFile env path s =
     (if shaderFileLoads env path then (True, s\<lparr>shaderFile := Some path\<rparr>) else (False, s))"

subsection \<open>Camera\<close>

text \<open>
  Modelled from the spec: \<open>Camera\<close> (\<open>Camera.cpp\<close> is absent) owns a view matrix, a
  projection matrix and yaw/pitch accumulators. \<open>Update\<close> integrates movement and recomputes
  the view matrix from position and orientation; \<open>RotateCamera\<close> adjusts the accumulators
  by a fixed sensitivity factor and clamps the pitch at 89 degrees either way;
  \<open>SetProjectionMat\<close> recomputes the projection from width and height, the field of view
  and the near and far planes being fixed. Each matrix is a function of the values it is
  computed from, which are what the model keeps: \<open>viewMat\<close> the position, yaw and pitch,
  \<open>projectionMat\<close> the width and height. Angles are in degrees. The spec names no initial
  values; the accumulators and the position start at zero.
\<close>

record Camera =
  camPosition :: XMFLOAT3
  yaw :: real
  pitch :: real
  sensitivity :: real
  viewMat :: "XMFLOAT3 \<times> real \<times> real"
  projectionMat :: "nat \<times> nat"

definition Camera_new :: "real \<Rightarrow> Camera" where
  "Camera_new s =
     \<lparr>camPosition = (0, 0, 0), yaw = 0, pitch = 0, sensitivity = s,
      viewMat = ((0, 0, 0), 0, 0), projectionMat = (0, 0)\<rparr>"

definition clamp :: "real \<Rightarrow> real \<Rightarrow> real \<Rightarrow> real" where
  "clamp x lo hi = (if x < lo then lo else if hi < x then hi else x)"

text \<open>
  Modelled from the spec: \<open>rotateCamera(deltaX, deltaY)\<close> of \<open>Camera\<close> (absent) adjusts the
  yaw and pitch accumulators by a fixed sensitivity factor, clamping the pitch to avoid
  inversion past the vertical poles.
\<close>

definition RotateCamera :: "real \<Rightarrow> real \<Rightarrow> Camera \<Rightarrow> Camera" where
  "RotateCamera deltaX deltaY c =
     c\<lparr>yaw := yaw c + deltaX * sensitivity c,
       pitch := clamp (pitch c + deltaY * sensitivity c) (- 89) 89\<rparr>"

text \<open>
  Modelled from the spec: \<open>update(deltaTime)\<close> of \<open>Camera\<close> (absent) integrates movement
  based on the keys held, here the velocity they amount to, and recomputes the view
  matrix from position and orientation.
\<close>

definition Camera_Update :: "XMFLOAT3 \<Rightarrow> real \<Rightarrow> Camera \<Rightarrow> Camera" where
  "Camera_Update vel deltaTime c =
     (let p = (vx (camPosition c) + vx vel * deltaTime,
               vy (camPosition c) + vy vel * deltaTime,
               vz (camPosition c) + vz vel * deltaTime)
      in c\<lparr>camPosition := p, viewMat := (p, yaw c, pitch c)\<rparr>)"

text \<open>
  Modelled from the spec: \<open>setProjectionMat(width, height)\<close> of \<open>Camera\<close> (absent)
  recomputes the projection matrix for the given output size; \<open>aspectRatio\<close> is the
  aspect ratio of a projection computed for a size.
\<close>

definition SetProjectionMat :: "nat \<Rightarrow> nat \<Rightarrow> Camera \<Rightarrow> Camera" where
  "SetProjectionMat w h c = c\<lparr>projectionMat := (w, h)\<rparr>"

definition GetViewMat :: "Camera \<Rightarrow> XMFLOAT3 \<times> real \<times> real" where
  "GetViewMat c = viewMat c"

definition GetProjectionMat :: "Camera \<Rightarrow> nat \<times> nat" where
  "GetProjectionMat c = projectionMat c"

definition aspectRatio :: "nat \<times> nat \<Rightarrow> real" where
  "aspectRatio p = real (fst p) / real (snd p)"

subsection \<open>Emitter\<close>

text \<open>
  Modelled from the spec: \<open>Emitter\<close> (\<open>Emitter.cpp\<close> is absent) owns a fixed-capacity pool
  of particles; spawn rate and lifetime are set at construction. \<open>Update\<close> adds
  \<open>particlesPerSecond * deltaTime\<close> to a fractional spawn counter; whenever the counter
  has reached 1.0 one particle is spawned at the pool slot chosen round-robin and the
  counter is decremented by 1.0; then the age of each live particle advances by
  \<open>deltaTime\<close>. A particle whose age has reached the lifetime is dead; it stays in its
  slot until a spawn reuses the slot. The spec gives no rule for positions and velocities,
  which are left out. \<open>serial\<close> and \<open>totalSpawned\<close> are bookkeeping: the number of spawns
  before this particle's, and the number of spawns so far.
\<close>

record Particle =
  age :: real
  serial :: nat

record Emitter =
  maxParticles :: nat
  particlesPerSecond :: real
  lifetime :: real
  startSize :: real
  endSize :: real
  startColor :: XMFLOAT4
  endColor :: XMFLOAT4
  startVelocity :: XMFLOAT3
  emitterPosition :: XMFLOAT3
  emitterAcceleration :: XMFLOAT3
  particles :: "Particle option list"
  nextSlot :: nat
  spawnCounter :: real
  totalSpawned :: nat

text \<open>
  Modelled from the spec: the constructor of \<open>Emitter\<close> (absent), with the arguments in
  the order \<open>Game::Init\<close> passes them; the pool starts empty and the counter at zero.
\<close>

definition Emitter_new ::
  "nat \<Rightarrow> real \<Rightarrow> real \<Rightarrow> real \<Rightarrow> real \<Rightarrow> XMFLOAT4 \<Rightarrow> XMFLOAT4 \<Rightarrow> XMFLOAT3 \<Rightarrow> XMFLOAT3 \<Rightarrow> XMFLOAT3
     \<Rightarrow> Emitter" where
  "Emitter_new maxP pps life sSize eSize sColor eColor sVel sPos sAcc =
     \<lparr>maxParticles = maxP, particlesPerSecond = pps, lifetime = life,
      startSize = sSize, endSize = eSize, startColor = sColor, endColor = eColor,
      startVelocity = sVel, emitterPosition = sPos, emitterAcceleration = sAcc,
      particles = replicate maxP None, nextSlot = 0, spawnCounter = 0, totalSpawned = 0\<rparr>"

definition isLive :: "real \<Rightarrow> Particle option \<Rightarrow> bool" where
  "isLive life s = (case s of None \<Rightarrow> False | Some p \<Rightarrow> age p < life)"

definition liveCount :: "Emitter \<Rightarrow> nat" where
  "liveCount e = length (filter (isLive (lifetime e)) (particles e))"

text \<open>
  Modelled from the spec: a spawn of \<open>Emitter\<close> (absent) puts one new particle, of age
  zero, at the pool slot chosen by round-robin recycling.
\<close>

definition SpawnParticle :: "Emitter \<Rightarrow> Emitter" where
  "SpawnParticle e =
     e\<lparr>particles := (particles e)[nextSlot e := Some \<lparr>age = 0, serial = totalSpawned e\<rparr>],
       nextSlot := (if Suc (nextSlot e) < maxParticles e then Suc (nextSlot e) else 0),
       totalSpawned := Suc (totalSpawned e)\<rparr>"

text \<open>
  Modelled from the spec: the spawn loop of \<open>Emitter::Update\<close> (absent); whenever the
  counter has reached 1.0 one particle is spawned and the counter is decremented by 1.0.
\<close>

function spawnLoop :: "Emitter \<Rightarrow> Emitter" where
  "spawnLoop e =
     (if 1 \<le> spawnCounter e
      then spawnLoop ((SpawnParticle e)\<lparr>spawnCounter := spawnCounter e - 1\<rparr>)
      else e)"
  by pat_completeness auto
termination
proof (relation "measure (\<lambda>e. nat \<lfloor>spawnCounter e\<rfloor>)")
  show "wf (measure (\<lambda>e. nat \<lfloor>spawnCounter e\<rfloor>))"
    by simp
next
  fix e :: Emitter
  assume c: "1 \<le> spawnCounter e"
  have "\<lfloor>spawnCounter e - 1\<rfloor> = \<lfloor>spawnCounter e\<rfloor> - 1"
    by simp
  moreover from c have "1 \<le> \<lfloor>spawnCounter e\<rfloor>"
    by (simp add: le_floor_iff)
  ultimately have "nat \<lfloor>spawnCounter e - 1\<rfloor> < nat \<lfloor>spawnCounter e\<rfloor>"
    by simp
  then show "((SpawnParticle e)\<lparr>spawnCounter := spawnCounter e - 1\<rparr>, e)
      \<in> measure (\<lambda>e. nat \<lfloor>spawnCounter e\<rfloor>)"
    by (simp add: SpawnParticle_def)
qed

declare spawnLoop.simps [simp del]

text \<open>
  Modelled from the spec: in \<open>Emitter::Update\<close> (absent) each live particle's age advances
  by \<open>deltaTime\<close>; a dead one keeps its age and its slot.
\<close>

definition ageParticle :: "real \<Rightarrow> real \<Rightarrow> Particle option \<Rightarrow> Particle option" where
  "ageParticle life dt s =
     (case s of None \<Rightarrow> None
      | Some p \<Rightarrow> if age p < life then Some (p\<lparr>age := age p + dt\<rparr>) else Some p)"

text \<open>
  Modelled from the spec: \<open>update(deltaTime)\<close> of \<open>Emitter\<close> (absent), in the order the
  spec gives: accumulate the counter, spawn, advance the ages.
\<close>

definition Emitter_Update :: "real \<Rightarrow> Emitter \<Rightarrow> Emitter" where
  "Emitter_Update deltaTime e =
     (let e = e\<lparr>spawnCounter := spawnCounter e + particlesPerSecond e * deltaTime\<rparr>;
          e = spawnLoop e
      in e\<lparr>particles := map (ageParticle (lifetime e) deltaTime) (particles e)\<rparr>)"

text \<open>
  Modelled from the spec: the rendering attributes of \<open>Emitter\<close> (absent). Size, colour
  and opacity of a particle are interpolated linearly between the start and end values,
  with \<open>age / lifetime\<close>, clamped to 0 and 1, as the interpolation parameter.
\<close>

definition interpolationT :: "Emitter \<Rightarrow> Particle \<Rightarrow> real" where
  "interpolationT e p =
     (let t = age p / lifetime e in if t < 0 then 0 else if 1 < t then 1 else t)"

definition lerp :: "real \<Rightarrow> real \<Rightarrow> real \<Rightarrow> real" where
  "lerp a b t = a + (b - a) * t"

definition particleSize :: "Emitter \<Rightarrow> Particle \<Rightarrow> real" where
  "particleSize e p = lerp (startSize e) (endSize e) (interpolationT e p)"

definition particleColor :: "Emitter \<Rightarrow> Particle \<Rightarrow> XMFLOAT4" where
  "particleColor e p =
     (case (startColor e, endColor e) of
        ((r0, g0, b0, a0), (r1, g1, b1, a1)) \<Rightarrow>
          (let t = interpolationT e p
           in (lerp r0 r1 t, lerp g0 g1 t, lerp b0 b1 t, lerp a0 a1 t)))"

definition particleOpacity :: "Emitter \<Rightarrow> Particle \<Rightarrow> real" where
  "particleOpacity e p = snd (snd (snd (particleColor e p)))"

section \<open>The orchestrator: Game\<close>

text \<open>
  The calls \<open>Game.cpp\<close> makes on what lies outside the modelled data, in program order:
  the device, the device context, the swap chain, the loaders, the window system and the
  base class, together with the rendering calls on entities and emitter and the rotation
  requests forwarded to the camera. Arguments that are constant in the source and play no
  part below (the device and context handles, slot numbers, strides, formats, blend
  factors, sample masks, clear flags) are left out.
\<close>

datatype call =
    CreateWICTextureFromFile string
  | CreateSamplerState D3D11_SAMPLER_DESC
  | CreateDepthStencilState D3D11_DEPTH_STENCIL_DESC
  | CreateBlendState D3D11_BLEND_DESC
  | LoadShaderFileCall shader_ref string
  | SetSamplerState shader_ref string
  | SetShaderResourceView shader_ref string string
  | SetData shader_ref string DirectionalLight
  | IASetPrimitiveTopology
  | DXCore_OnResize
  | ClearRenderTargetView XMFLOAT4
  | ClearDepthStencilView real nat
  | IASetVertexBuffers buffer
  | IASetIndexBuffer buffer
  | PrepareMaterial entity_ref material_ref "XMFLOAT3 \<times> real \<times> real" "nat \<times> nat"
  | DrawIndexed nat nat nat
  | OMSetBlendState "D3D11_BLEND_DESC option"
  | OMSetDepthStencilState "D3D11_DEPTH_STENCIL_DESC option"
  | EmitterDraw nat "XMFLOAT3 \<times> real \<times> real" "nat \<times> nat"
  | Present
  | GetAsyncKeyState_VK_ESCAPE
  | QuitCall
  | RotateCameraCall real real
  | SetCapture
  | ReleaseCapture

text \<open>
  The fields of \<open>Game\<close> and those of its base class \<open>DXCore\<close> that \<open>Game.cpp\<close> reads
  (\<open>width\<close>, \<open>height\<close>). Objects held by pointer are held by value; \<open>new\<close> does not return
  null, and every such field is assigned in \<open>Init\<close> before \<open>Update\<close>, \<open>Draw\<close> or an input
  handler reads it. Before \<open>Init\<close> the fields hold whatever the memory holds, so \<open>Init\<close>
  takes a \<open>game\<close> with arbitrary contents; \<open>prevMousePos\<close> and \<open>particleTexture\<close> are never
  assigned by it. \<open>quitRequested\<close> records that \<open>Quit\<close> was called.
\<close>

record game =
  width :: nat
  height :: nat
  quitRequested :: bool
  calls :: "call list"
  vertexShader :: SimpleShader
  pixelShader :: SimpleShader
  particleVS :: SimpleShader
  particlePS :: SimpleShader
  sphereMesh :: Mesh
  helixMesh :: Mesh
  cubeMesh :: Mesh
  entityOne :: Entity
  entityTwo :: Entity
  entityThree :: Entity
  gameCamera :: Camera
  mat1 :: Material
  mat2 :: Material
  emitter :: Emitter
  sampler :: D3D11_SAMPLER_DESC
  rockSRV :: string
  woodSRV :: string
  particleTexture :: string
  particleBlendState :: D3D11_BLEND_DESC
  particleDepthState :: D3D11_DEPTH_STENCIL_DESC
  dirLight :: DirectionalLight
  dirLight2 :: DirectionalLight
  worldMatrix :: "real list list"
  prevMousePos :: "32 word \<times> 32 word"

definition logCall :: "call \<Rightarrow> game \<Rightarrow> game" where
  "logCall c g = g\<lparr>calls := calls g @ [c]\<rparr>"

definition getShader :: "shader_ref \<Rightarrow> game \<Rightarrow> SimpleShader" where
  "getShader r g =
     (case r of VertexShaderObj \<Rightarrow> vertexShader g | PixelShaderObj \<Rightarrow> pixelShader g
      | ParticleVSObj \<Rightarrow> particleVS g | ParticlePSObj \<Rightarrow> particlePS g)"

definition setShader :: "shader_ref \<Rightarrow> SimpleShader \<Rightarrow> game \<Rightarrow> game" where
  "setShader r s g =
     (case r of VertexShaderObj \<Rightarrow> g\<lparr>vertexShader := s\<rparr> | PixelShaderObj \<Rightarrow> g\<lparr>pixelShader := s\<rparr>
      | ParticleVSObj \<Rightarrow> g\<lparr>particleVS := s\<rparr> | ParticlePSObj \<Rightarrow> g\<lparr>particlePS := s\<rparr>)"

definition getMesh :: "mesh_ref \<Rightarrow> game \<Rightarrow> Mesh" where
  "getMesh r g = (case r of SphereMesh \<Rightarrow> sphereMesh g | HelixMesh \<Rightarrow> helixMesh g | CubeMesh \<Rightarrow> cubeMesh g)"

definition getEntity :: "entity_ref \<Rightarrow> game \<Rightarrow> Entity" where
  "getEntity r g = (case r of EntityOne \<Rightarrow> entityOne g | EntityTwo \<Rightarrow> entityTwo g | EntityThree \<Rightarrow> entityThree g)"

text \<open>
  The constructor: the base class gets the 1280 by 720 client area and nothing has been
  called yet. The two shader pointers it sets to null are assigned by \<open>LoadShaders\<close>
  before anything reads them; the console window of debug builds and the destructor are
  not modelled.
\<close>

definition Game_new :: "game \<Rightarrow> game" where
  "Game_new g = g\<lparr>width := 1280, height := 720, quitRequested := False, calls := []\<rparr>"

text \<open>\<open>shader->LoadShaderFile(path)\<close> on one of the four shader objects: its result and the game after it.\<close>

definition callLoadShaderFile :: "environment \<Rightarrow> shader_ref \<Rightarrow> string \<Rightarrow> game \<Rightarrow> bool \<times> game" where
  "callLoadShaderFile env r path g =
     (let (ok, s) = LoadShaderFile env path (getShader r g)
      in (ok, logCall (LoadShaderFileCall r path) (setShader r s g)))"

definition LoadShaders :: "environment \<Rightarrow> game \<Rightarrow> game" where
  "LoadShaders env g0 =
     (let g = setShader VertexShaderObj SimpleShader_new g0;
          (ok, g) = callLoadShaderFile env VertexShaderObj ''Debug/VertexShader.cso'' g;
          g = (if \<not> ok then snd (callLoadShaderFile env VertexShaderObj ''VertexShader.cso'' g) else g);
          g = setShader PixelShaderObj SimpleShader_new g;
          (ok, g) = callLoadShaderFile env PixelShaderObj ''Debug/PixelShader.cso'' g;
          g = (if \<not> ok then snd (callLoadShaderFile env PixelShaderObj ''PixelShader.cso'' g) else g);
          g = setShader ParticleVSObj SimpleShader_new g;
          (ok, g) = callLoadShaderFile env ParticleVSObj ''Debug/ParticleVS.cso'' g;
          g = (if \<not> ok then snd (callLoadShaderFile env ParticleVSObj ''ParticleVS.cso'' g) else g);
          g = setShader ParticlePSObj SimpleShader_new g;
          (ok, g) = callLoadShaderFile env ParticlePSObj ''Debug/ParticlePS.cso'' g;
          g = (if \<not> ok then snd (callLoadShaderFile env ParticlePSObj ''ParticlePS.cso'' g) else g);
          g = logCall (SetSamplerState PixelShaderObj ''Sampler'') g;
          g = logCall (SetShaderResourceView PixelShaderObj ''Rocks'' (rockSRV g)) g;
          g = logCall (SetShaderResourceView PixelShaderObj ''Wood'' (woodSRV g)) g;
          g = g\<lparr>mat1 := \<lparr>matPixelShader = PixelShaderObj, matVertexShader = VertexShaderObj,
                          matSRV = rockSRV g, matSampler = sampler g\<rparr>\<rparr>;
          g = g\<lparr>mat2 := \<lparr>matPixelShader = PixelShaderObj, matVertexShader = VertexShaderObj,
                          matSRV = woodSRV g, matSampler = sampler g\<rparr>\<rparr>
      in g)"

definition identityMatrix :: "real list list" where
  "identityMatrix = [[1, 0, 0, 0], [0, 1, 0, 0], [0, 0, 1, 0], [0, 0, 0, 1]]"

definition CreateMatrices :: "environment \<Rightarrow> game \<Rightarrow> game" where
  "CreateMatrices env g0 =
     (let g = g0\<lparr>worldMatrix := transpose identityMatrix\<rparr>;
          g = g\<lparr>gameCamera := Camera_new (cameraSensitivity env)\<rparr>;
          g = g\<lparr>gameCamera := SetProjectionMat (width g) (height g) (gameCamera g)\<rparr>
      in g)"

definition CreateBasicGeometry :: "environment \<Rightarrow> game \<Rightarrow> game" where
  "CreateBasicGeometry env g0 =
     (let g = g0\<lparr>sphereMesh := Mesh_new env ''Debug/Assets/Models/sphere.obj''\<rparr>;
          g = g\<lparr>helixMesh := Mesh_new env ''Debug/Assets/Models/helix.obj''\<rparr>;
          g = g\<lparr>cubeMesh := Mesh_new env ''Debug/Assets/Models/cube.obj''\<rparr>;
          g = g\<lparr>entityOne := Entity_new SphereMesh Mat2\<rparr>;
          g = g\<lparr>entityTwo := Entity_new CubeMesh Mat1\<rparr>;
          g = g\<lparr>entityThree := Entity_new HelixMesh Mat1\<rparr>;
          g = g\<lparr>entityOne := SetPosition (1.5, 0, 0) (entityOne g)\<rparr>;
          g = g\<lparr>entityOne := SetScale (1, 1, 1) (entityOne g)\<rparr>;
          g = g\<lparr>entityTwo := SetPosition (- 1.5, 0, 0) (entityTwo g)\<rparr>;
          g = g\<lparr>entityTwo := SetScale (1.5, 1.5, 1) (entityTwo g)\<rparr>;
          g = g\<lparr>entityThree := SetPosition (0, - 1.5, 0) (entityThree g)\<rparr>;
          g = g\<lparr>entityThree := SetRotation (0, 0, 1) (entityThree g)\<rparr>
      in g)"

text \<open>
  \<open>Init\<close>. The results of the texture loader and of the device's create calls are not
  checked by the source and are taken to succeed: a texture view is named by its file, a
  state object is its descriptor. The emitter is constructed before \<open>LoadShaders\<close> has
  assigned \<open>particleVS\<close> and \<open>particlePS\<close>, and \<open>particleTexture\<close> is never assigned; the
  device, shader and texture arguments are not part of the emitter model.
\<close>

definition Init :: "environment \<Rightarrow> game \<Rightarrow> game" where
  "Init env g0 =
     (let g = logCall (CreateWICTextureFromFile ''Debug/Assets/Textures/MossRock.tif'') g0;
          g = g\<lparr>rockSRV := ''Debug/Assets/Textures/MossRock.tif''\<rparr>;
          g = logCall (CreateWICTextureFromFile ''Debug/Assets/Textures/TreeBark.tif'') g;
          g = g\<lparr>woodSRV := ''Debug/Assets/Textures/TreeBark.tif''\<rparr>;
          samplerDesc = \<lparr>Filter = D3D11_FILTER_ANISOTROPIC, AddressU = D3D11_TEXTURE_ADDRESS_WRAP,
                         AddressV = D3D11_TEXTURE_ADDRESS_WRAP, AddressW = D3D11_TEXTURE_ADDRESS_WRAP,
                         MaxAnisotropy = 16, MaxLODIsFloatMax = True\<rparr>;
          g = logCall (CreateSamplerState samplerDesc) g;
          g = g\<lparr>sampler := samplerDesc\<rparr>;
          dsDesc = \<lparr>DepthEnable = True, DepthWriteMask = D3D11_DEPTH_WRITE_MASK_ZERO,
                    DepthFunc = D3D11_COMPARISON_LESS\<rparr>;
          g = logCall (CreateDepthStencilState dsDesc) g;
          g = g\<lparr>particleDepthState := dsDesc\<rparr>;
          blend = \<lparr>AlphaToCoverageEnable = False, IndependentBlendEnable = False,
                   BlendEnable = True, BlendOp = D3D11_BLEND_OP_ADD,
                   SrcBlend = D3D11_BLEND_ONE, DestBlend = D3D11_BLEND_ONE,
                   BlendOpAlpha = D3D11_BLEND_OP_ADD,
                   SrcBlendAlpha = D3D11_BLEND_ONE, DestBlendAlpha = D3D11_BLEND_ONE,
                   RenderTargetWriteMask = 0x0f\<rparr>;
          g = logCall (CreateBlendState blend) g;
          g = g\<lparr>particleBlendState := blend\<rparr>;
          g = g\<lparr>emitter := Emitter_new 1000 100 5 0.1 5.0 (1, 0.1, 0.1, 0.2) (1, 0.6, 0.1, 0)
                              (- 2, 2, 0) (2, 0, 0) (0, - 1, 0)\<rparr>;
          g = LoadShaders env g;
          g = CreateMatrices env g;
          g = CreateBasicGeometry env g;
          g = g\<lparr>dirLight := \<lparr>AmbietColor = (0.1, 0.1, 0.1, 1.0), DiffuseColor = (1, 0, 0, 1),
                              Direction = (0, - 1, 0)\<rparr>\<rparr>;
          g = g\<lparr>dirLight2 := \<lparr>AmbietColor = (0.1, 0.1, 0.1, 1.0), DiffuseColor = (1, 1, 1, 1),
                               Direction = (0, 0, 1)\<rparr>\<rparr>;
          g = logCall (SetData PixelShaderObj ''light'' (dirLight g)) g;
          g = logCall (SetData PixelShaderObj ''light2'' (dirLight2 g)) g;
          g = logCall IASetPrimitiveTopology g
      in g)"

definition OnResize :: "game \<Rightarrow> game" where
  "OnResize g0 =
     (let g = logCall DXCore_OnResize g0;
          g = g\<lparr>gameCamera := SetProjectionMat (width g) (height g) (gameCamera g)\<rparr>
      in g)"

text \<open>
  Modelled from the spec: \<open>DXCore::Quit\<close> (\<open>DXCore.cpp\<close> is absent) requests process
  termination.
\<close>

definition Quit :: "game \<Rightarrow> game" where
  "Quit g = (logCall QuitCall g)\<lparr>quitRequested := True\<rparr>"

text \<open>
  \<open>Update\<close>. In \<open>GetRotation().y + 0.0001\<close> the literal is a \<open>double\<close>, the \<open>float\<close> operand
  is promoted (exactly) and the sum is a \<open>double\<close>; the \<open>XMFLOAT3\<close> constructor narrows it to
  \<open>float\<close>.
\<close>

definition Update :: "frame_input \<Rightarrow> real \<Rightarrow> real \<Rightarrow> game \<Rightarrow> game" where
  "Update inp deltaTime totalTime g0 =
     (let g = g0\<lparr>emitter := Emitter_Update deltaTime (emitter g0)\<rparr>;
          g = g\<lparr>entityOne := SetRotation (vx (rotation (entityOne g)),
                                           toFloat (toDouble (vy (rotation (entityOne g)) + toDouble 0.0001)),
                                           vz (rotation (entityOne g))) (entityOne g)\<rparr>;
          g = g\<lparr>entityOne := FinalizeMatrix (entityOne g)\<rparr>;
          g = g\<lparr>entityTwo := SetPosition (vx (position (entityTwo g)), sin totalTime,
                                           vz (position (entityTwo g))) (entityTwo g)\<rparr>;
          g = g\<lparr>entityTwo := FinalizeMatrix (entityTwo g)\<rparr>;
          g = g\<lparr>entityThree := SetScale (sin totalTime + 1, sin totalTime + 1, sin totalTime + 1)
                                          (entityThree g)\<rparr>;
          g = g\<lparr>entityThree := FinalizeMatrix (entityThree g)\<rparr>;
          g = g\<lparr>gameCamera := Camera_Update (cameraVelocity inp) deltaTime (gameCamera g)\<rparr>;
          g = logCall GetAsyncKeyState_VK_ESCAPE g;
          g = (if escapeKeyState inp \<noteq> 0 then Quit g else g)
      in g)"

text \<open>
  Modelled from the spec: \<open>Entity::PrepareMaterial\<close> pushes the matrices to the shaders of
  the entity's material and binds its texture and sampler; \<open>Emitter::Draw\<close> issues one draw
  call covering all live particles. Both act on the device context only.
\<close>

definition callPrepareMaterial :: "entity_ref \<Rightarrow> XMFLOAT3 \<times> real \<times> real \<Rightarrow> nat \<times> nat \<Rightarrow> game \<Rightarrow> game" where
  "callPrepareMaterial r view proj g = logCall (PrepareMaterial r (material (getEntity r g)) view proj) g"

definition Emitter_Draw :: "Camera \<Rightarrow> game \<Rightarrow> game" where
  "Emitter_Draw cam g = logCall (EmitterDraw (liveCount (emitter g)) (GetViewMat cam) (GetProjectionMat cam)) g"

definition Draw :: "real \<Rightarrow> real \<Rightarrow> game \<Rightarrow> game" where
  "Draw deltaTime totalTime g0 =
     (let color = (0.4, 0.6, 0.75, 0.0);
          g = logCall (ClearRenderTargetView color) g0;
          g = logCall (ClearDepthStencilView 1.0 0) g;
          vertexBuffer = GetVertexBuffer (getMesh (mesh (entityOne g)) g);
          indexBuffer = GetIndexBuffer (getMesh (mesh (entityOne g)) g);
          g = logCall (IASetVertexBuffers vertexBuffer) g;
          g = logCall (IASetIndexBuffer indexBuffer) g;
          g = callPrepareMaterial EntityOne (GetViewMat (gameCamera g)) (GetProjectionMat (gameCamera g)) g;
          g = logCall (DrawIndexed (GetIndexCount (getMesh (mesh (entityOne g)) g)) 0 0) g;
          vertexBuffer = GetVertexBuffer (getMesh (mesh (entityTwo g)) g);
          indexBuffer = GetIndexBuffer (getMesh (mesh (entityTwo g)) g);
          g = logCall (IASetVertexBuffers vertexBuffer) g;
          g = logCall (IASetIndexBuffer indexBuffer) g;
          g = callPrepareMaterial EntityTwo (GetViewMat (gameCamera g)) (GetProjectionMat (gameCamera g)) g;
          g = logCall (DrawIndexed (GetIndexCount (getMesh (mesh (entityTwo g)) g)) 0 0) g;
          vertexBuffer = GetVertexBuffer (getMesh (mesh (entityThree g)) g);
          indexBuffer = GetIndexBuffer (getMesh (mesh (entityThree g)) g);
          g = logCall (IASetVertexBuffers vertexBuffer) g;
          g = logCall (IASetIndexBuffer indexBuffer) g;
          g = callPrepareMaterial EntityThree (GetViewMat (gameCamera g)) (GetProjectionMat (gameCamera g)) g;
          g = logCall (DrawIndexed (GetIndexCount (getMesh (mesh (entityThree g)) g)) 0 0) g;
          g = logCall (OMSetBlendState (Some (particleBlendState g))) g;
          g = logCall (OMSetDepthStencilState (Some (particleDepthState g))) g;
          g = Emitter_Draw (gameCamera g) g;
          g = logCall (OMSetBlendState None) g;
          g = logCall (OMSetDepthStencilState None) g;
          g = logCall Present g
      in g)"

text \<open>
  The mouse handlers. \<open>buttonState\<close> is a \<open>WPARAM\<close>; \<open>x\<close> and \<open>y\<close> are \<open>int\<close>, and
  \<open>prevMousePos\<close> is a \<open>POINT\<close> that neither the constructor nor \<open>Init\<close> assigns. In
  \<open>float deltaX = x - prevMousePos.x\<close> the subtraction is the 32-bit one and its result is
  converted to \<open>float\<close>.
\<close>

definition OnMouseDown :: "64 word \<Rightarrow> 32 word \<Rightarrow> 32 word \<Rightarrow> game \<Rightarrow> game" where
  "OnMouseDown buttonState x y g0 =
     (let g = g0\<lparr>prevMousePos := (x, y)\<rparr>;
          g = logCall SetCapture g
      in g)"

definition OnMouseUp :: "64 word \<Rightarrow> 32 word \<Rightarrow> 32 word \<Rightarrow> game \<Rightarrow> game" where
  "OnMouseUp buttonState x y g = logCall ReleaseCapture g"

definition callRotateCamera :: "real \<Rightarrow> real \<Rightarrow> game \<Rightarrow> game" where
  "callRotateCamera deltaX deltaY g =
     logCall (RotateCameraCall deltaX deltaY) (g\<lparr>gameCamera := RotateCamera deltaX deltaY (gameCamera g)\<rparr>)"

definition OnMouseMove :: "64 word \<Rightarrow> 32 word \<Rightarrow> 32 word \<Rightarrow> game \<Rightarrow> game" where
  "OnMouseMove buttonState x y g0 =
     (let g = (if buttonState AND 0x0001 \<noteq> 0
               then (if x \<noteq> fst (prevMousePos g0) \<or> y \<noteq> snd (prevMousePos g0)
                     then (let deltaX = intToFloat (x - fst (prevMousePos g0));
                               deltaY = intToFloat (y - snd (prevMousePos g0))
                           in callRotateCamera deltaX deltaY g0)
                     else g0)
               else g0);
          g = g\<lparr>prevMousePos := (x, y)\<rparr>
      in g)"

definition OnMouseWheel :: "real \<Rightarrow> 32 word \<Rightarrow> 32 word \<Rightarrow> game \<Rightarrow> game" where
  "OnMouseWheel wheelDelta x y g = g"

section \<open>The shell that drives the orchestrator\<close>

text \<open>
  Modelled from the spec: the windowing shell (\<open>DXCore.cpp\<close> is absent) dispatches
  \<open>OnResize\<close> and the mouse handlers on OS events, and on a resize it has stored the new
  client size before it calls \<open>OnResize\<close>; its frame pump calls \<open>Update\<close> then \<open>Draw\<close>.
  \<open>handler\<close> lists what the shell can invoke on an initialised game, \<open>run\<close> invokes a
  sequence of them in any order.
\<close>

datatype handler =
    UpdateEv frame_input real real
  | DrawEv real real
  | ResizeEv nat nat
  | MouseDownEv "64 word" "32 word" "32 word"
  | MouseUpEv "64 word" "32 word" "32 word"
  | MouseMoveEv "64 word" "32 word" "32 word"
  | MouseWheelEv real "32 word" "32 word"

definition dispatch :: "handler \<Rightarrow> game \<Rightarrow> game" where
  "dispatch ev g =
     (case ev of
        UpdateEv inp dt tt \<Rightarrow> Update inp dt tt g
      | DrawEv dt tt \<Rightarrow> Draw dt tt g
      | ResizeEv w h \<Rightarrow> OnResize (g\<lparr>width := w, height := h\<rparr>)
      | MouseDownEv b x y \<Rightarrow> OnMouseDown b x y g
      | MouseUpEv b x y \<Rightarrow> OnMouseUp b x y g
      | MouseMoveEv b x y \<Rightarrow> OnMouseMove b x y g
      | MouseWheelEv d x y \<Rightarrow> OnMouseWheel d x y g)"

primrec run :: "handler list \<Rightarrow> game \<Rightarrow> game" where
  "run [] g = g"
| "run (ev # evs) g = run evs (dispatch ev g)"

definition isResize :: "handler \<Rightarrow> bool" where
  "isResize ev = (case ev of ResizeEv w h \<Rightarrow> True | _ \<Rightarrow> False)"

text \<open>
  Modelled from the spec: the frame pump (\<open>DXCore::Run\<close> is absent). While running, each
  frame calls \<open>Update\<close> then \<open>Draw\<close>; a quit request made during \<open>Update\<close> moves the
  orchestrator to shutting down, and no further \<open>Draw\<close> is issued.
\<close>

fun framePump :: "(frame_input \<times> real \<times> real) list \<Rightarrow> game \<Rightarrow> game" where
  "framePump [] g = g"
| "framePump ((inp, dt, tt) # fs) g =
     (if quitRequested g then g
      else (let g = Update inp dt tt g
            in if quitRequested g then g else framePump fs (Draw dt tt g)))"

section \<open>Reading the call trace\<close>

definition newCalls :: "game \<Rightarrow> game \<Rightarrow> call list" where
  "newCalls g g' = drop (length (calls g)) (calls g')"

definition additive :: "D3D11_BLEND_DESC \<Rightarrow> bool" where
  "additive b = (BlendEnable b \<and> BlendOp b = D3D11_BLEND_OP_ADD
                  \<and> SrcBlend b = D3D11_BLEND_ONE \<and> DestBlend b = D3D11_BLEND_ONE)"

definition noDepthWrite :: "D3D11_DEPTH_STENCIL_DESC \<Rightarrow> bool" where
  "noDepthWrite d = (DepthEnable d \<and> DepthWriteMask d = D3D11_DEPTH_WRITE_MASK_ZERO)"

text \<open>The projection a rendering call was given, if it is one that takes the camera's matrices.\<close>

fun projectionUsed :: "call \<Rightarrow> (nat \<times> nat) option" where
  "projectionUsed (PrepareMaterial r m v p) = Some p"
| "projectionUsed (EmitterDraw n v p) = Some p"
| "projectionUsed c = None"

fun isDrawCall :: "call \<Rightarrow> bool" where
  "isDrawCall (DrawIndexed n i j) = True"
| "isDrawCall (EmitterDraw n v p) = True"
| "isDrawCall (ClearRenderTargetView c) = True"
| "isDrawCall (ClearDepthStencilView d s) = True"
| "isDrawCall Present = True"
| "isDrawCall c = False"

fun noDrawAfterQuit :: "call list \<Rightarrow> bool" where
  "noDrawAfterQuit [] = True"
| "noDrawAfterQuit (c # cs) = (if c = QuitCall then list_all (\<lambda>d. \<not> isDrawCall d) cs else noDrawAfterQuit cs)"

fun loadAttempts :: "shader_ref \<Rightarrow> call list \<Rightarrow> string list" where
  "loadAttempts r [] = []"
| "loadAttempts r (LoadShaderFileCall r' path # cs) = (if r' = r then path # loadAttempts r cs else loadAttempts r cs)"
| "loadAttempts r (c # cs) = loadAttempts r cs"

fun isLoadCall :: "call \<Rightarrow> bool" where
  "isLoadCall (LoadShaderFileCall r path) = True"
| "isLoadCall c = False"

text \<open>The primary and the fallback path \<open>LoadShaders\<close> gives for each shader object.\<close>

definition primaryPath :: "shader_ref \<Rightarrow> string" where
  "primaryPath r =
     (case r of VertexShaderObj \<Rightarrow> ''Debug/VertexShader.cso'' | PixelShaderObj \<Rightarrow> ''Debug/PixelShader.cso''
      | ParticleVSObj \<Rightarrow> ''Debug/ParticleVS.cso'' | ParticlePSObj \<Rightarrow> ''Debug/ParticlePS.cso'')"

definition fallbackPath :: "shader_ref \<Rightarrow> string" where
  "fallbackPath r =
     (case r of VertexShaderObj \<Rightarrow> ''VertexShader.cso'' | PixelShaderObj \<Rightarrow> ''PixelShader.cso''
      | ParticleVSObj \<Rightarrow> ''ParticleVS.cso'' | ParticlePSObj \<Rightarrow> ''ParticlePS.cso'')"

section \<open>Concrete inputs\<close>

text \<open>A game object as it may be before \<open>Init\<close>, and an environment in which only the \<open>Debug/\<close> shader paths load.\<close>

definition zeroGame :: game where
  "zeroGame =
     \<lparr>width = 0, height = 0, quitRequested = False, calls = [],
      vertexShader = SimpleShader_new, pixelShader = SimpleShader_new,
      particleVS = SimpleShader_new, particlePS = SimpleShader_new,
      sphereMesh = \<lparr>GetVertexBuffer = VertexBuffer [], GetIndexBuffer = IndexBuffer [], GetIndexCount = 0\<rparr>,
      helixMesh = \<lparr>GetVertexBuffer = VertexBuffer [], GetIndexBuffer = IndexBuffer [], GetIndexCount = 0\<rparr>,
      cubeMesh = \<lparr>GetVertexBuffer = VertexBuffer [], GetIndexBuffer = IndexBuffer [], GetIndexCount = 0\<rparr>,
      entityOne = Entity_new SphereMesh Mat1, entityTwo = Entity_new SphereMesh Mat1,
      entityThree = Entity_new SphereMesh Mat1,
      gameCamera = Camera_new 0,
      mat1 = \<lparr>matPixelShader = VertexShaderObj, matVertexShader = VertexShaderObj, matSRV = [],
              matSampler = \<lparr>Filter = D3D11_FILTER_MIN_MAG_MIP_POINT, AddressU = D3D11_TEXTURE_ADDRESS_NONE,
                AddressV = D3D11_TEXTURE_ADDRESS_NONE, AddressW = D3D11_TEXTURE_ADDRESS_NONE,
                MaxAnisotropy = 0, MaxLODIsFloatMax = False\<rparr>\<rparr>,
      mat2 = \<lparr>matPixelShader = VertexShaderObj, matVertexShader = VertexShaderObj, matSRV = [],
              matSampler = \<lparr>Filter = D3D11_FILTER_MIN_MAG_MIP_POINT, AddressU = D3D11_TEXTURE_ADDRESS_NONE,
                AddressV = D3D11_TEXTURE_ADDRESS_NONE, AddressW = D3D11_TEXTURE_ADDRESS_NONE,
                MaxAnisotropy = 0, MaxLODIsFloatMax = False\<rparr>\<rparr>,
      emitter = Emitter_new 0 0 0 0 0 (0, 0, 0, 0) (0, 0, 0, 0) (0, 0, 0) (0, 0, 0) (0, 0, 0),
      sampler = \<lparr>Filter = D3D11_FILTER_MIN_MAG_MIP_POINT, AddressU = D3D11_TEXTURE_ADDRESS_NONE,
                AddressV = D3D11_TEXTURE_ADDRESS_NONE, AddressW = D3D11_TEXTURE_ADDRESS_NONE,
                MaxAnisotropy = 0, MaxLODIsFloatMax = False\<rparr>,
      rockSRV = [], woodSRV = [], particleTexture = [],
      particleBlendState = \<lparr>AlphaToCoverageEnable = False, IndependentBlendEnable = False,
        BlendEnable = False, BlendOp = D3D11_BLEND_OP_NONE, SrcBlend = D3D11_BLEND_ZERO,
        DestBlend = D3D11_BLEND_ZERO, BlendOpAlpha = D3D11_BLEND_OP_NONE,
        SrcBlendAlpha = D3D11_BLEND_ZERO, DestBlendAlpha = D3D11_BLEND_ZERO, RenderTargetWriteMask = 0\<rparr>,
      particleDepthState = \<lparr>DepthEnable = False, DepthWriteMask = D3D11_DEPTH_WRITE_MASK_ZERO,
        DepthFunc = D3D11_COMPARISON_NONE\<rparr>,
      dirLight = \<lparr>AmbietColor = (0, 0, 0, 0), DiffuseColor = (0, 0, 0, 0), Direction = (0, 0, 0)\<rparr>,
      dirLight2 = \<lparr>AmbietColor = (0, 0, 0, 0), DiffuseColor = (0, 0, 0, 0), Direction = (0, 0, 0)\<rparr>,
      worldMatrix = [], prevMousePos = (0, 0)\<rparr>"

text \<open>
  The game \<open>Init\<close> sets up, with the sphere's y rotation at 2048, and one with a stored
  mouse position that no handler has assigned yet.
\<close>

definition sphereAt2048 :: game where
  "sphereAt2048 =
     (let g = Init \<lparr>shaderFileLoads = (\<lambda>p. True), meshIndexCount = (\<lambda>p. 36), cameraSensitivity = 1 / 4\<rparr>
                (Game_new zeroGame)
      in g\<lparr>entityOne := SetRotation (0, 2048, 0) (entityOne g)\<rparr>)"

definition strayMouseGame :: game where
  "strayMouseGame = zeroGame\<lparr>prevMousePos := (- 16777217, 0)\<rparr>"

definition debugEnv :: environment where
  "debugEnv = \<lparr>shaderFileLoads = (\<lambda>p. take 6 p = ''Debug/''), meshIndexCount = (\<lambda>p. 36),
                cameraSensitivity = 1 / 4\<rparr>"

section \<open>Auxiliary definitions for the proofs\<close>

text \<open>
  \<open>LoadShaders\<close> repeats one pattern four times and then binds the resources;
  \<open>tryLoad\<close> is that pattern and \<open>bindShaders\<close> the rest (lemma \<open>LoadShaders_steps\<close>).
\<close>

definition tryLoad :: "environment \<Rightarrow> shader_ref \<Rightarrow> game \<Rightarrow> game" where
  "tryLoad env r g0 =
     (let g = setShader r SimpleShader_new g0;
          (ok, g) = callLoadShaderFile env r (primaryPath r) g
      in if \<not> ok then snd (callLoadShaderFile env r (fallbackPath r) g) else g)"

definition bindShaders :: "game \<Rightarrow> game" where
  "bindShaders g0 =
     (let g = logCall (SetSamplerState PixelShaderObj ''Sampler'') g0;
          g = logCall (SetShaderResourceView PixelShaderObj ''Rocks'' (rockSRV g)) g;
          g = logCall (SetShaderResourceView PixelShaderObj ''Wood'' (woodSRV g)) g;
          g = g\<lparr>mat1 := \<lparr>matPixelShader = PixelShaderObj, matVertexShader = VertexShaderObj,
                          matSRV = rockSRV g, matSampler = sampler g\<rparr>\<rparr>;
          g = g\<lparr>mat2 := \<lparr>matPixelShader = PixelShaderObj, matVertexShader = VertexShaderObj,
                          matSRV = woodSRV g, matSampler = sampler g\<rparr>\<rparr>
      in g)"

definition attempts :: "environment \<Rightarrow> shader_ref \<Rightarrow> call list" where
  "attempts env r = LoadShaderFileCall r (primaryPath r) #
      (if shaderFileLoads env (primaryPath r) then [] else [LoadShaderFileCall r (fallbackPath r)])"

definition resolved :: "environment \<Rightarrow> shader_ref \<Rightarrow> string option" where
  "resolved env r = (if shaderFileLoads env (primaryPath r) then Some (primaryPath r)
      else if shaderFileLoads env (fallbackPath r) then Some (fallbackPath r) else None)"

definition pitchOK :: "Camera \<Rightarrow> bool" where
  "pitchOK c = (- 89 \<le> pitch c \<and> pitch c \<le> 89)"

text \<open>Sequences of calls on one camera and on one emitter.\<close>

primrec rotateAll :: "(real \<times> real) list \<Rightarrow> Camera \<Rightarrow> Camera" where
  "rotateAll [] c = c"
| "rotateAll (d # ds) c = rotateAll ds (RotateCamera (fst d) (snd d) c)"

primrec updates :: "real list \<Rightarrow> Emitter \<Rightarrow> Emitter" where
  "updates [] e = e"
| "updates (dt # dts) e = updates dts (Emitter_Update dt e)"

text \<open>
  The serial of the particle in a slot, and the invariant of the pool: the next slot is the
  number of spawns modulo the capacity, slots below it hold the particles of the current
  round, and slots from it on hold those of the round before, once there has been one.
  \<open>expiredCount\<close> counts the particles that stay in their slot past their lifetime.
\<close>

definition slotSerial :: "Emitter \<Rightarrow> nat \<Rightarrow> nat option" where
  "slotSerial e i = (case particles e ! i of None \<Rightarrow> None | Some p \<Rightarrow> Some (serial p))"

definition poolInv :: "Emitter \<Rightarrow> bool" where
  "poolInv e =
     (length (particles e) = maxParticles e \<and> nextSlot e < maxParticles e
      \<and> nextSlot e \<le> totalSpawned e \<and> maxParticles e dvd (totalSpawned e - nextSlot e)
      \<and> (\<forall>i<maxParticles e. slotSerial e i =
            (if i < nextSlot e then Some (totalSpawned e - nextSlot e + i)
             else if maxParticles e \<le> totalSpawned e
                  then Some (totalSpawned e - nextSlot e - maxParticles e + i) else None)))"

definition expiredCount :: "Emitter \<Rightarrow> nat" where
  "expiredCount e =
     length (filter (\<lambda>s. case s of None \<Rightarrow> False | Some p \<Rightarrow> lifetime e \<le> age p) (particles e))"

section \<open>Facts about the trace and the fields each function leaves alone\<close>

lemma logCall_simps:
  "calls (logCall c g) = calls g @ [c]"
  "entityOne (logCall c g) = entityOne g"
  "entityTwo (logCall c g) = entityTwo g"
  "entityThree (logCall c g) = entityThree g"
  "sphereMesh (logCall c g) = sphereMesh g"
  "helixMesh (logCall c g) = helixMesh g"
  "cubeMesh (logCall c g) = cubeMesh g"
  "gameCamera (logCall c g) = gameCamera g"
  "emitter (logCall c g) = emitter g"
  "particleBlendState (logCall c g) = particleBlendState g"
  "particleDepthState (logCall c g) = particleDepthState g"
  "prevMousePos (logCall c g) = prevMousePos g"
  "quitRequested (logCall c g) = quitRequested g"
  "width (logCall c g) = width g"
  "height (logCall c g) = height g"
  "rockSRV (logCall c g) = rockSRV g"
  "woodSRV (logCall c g) = woodSRV g"
  "sampler (logCall c g) = sampler g"
  "dirLight (logCall c g) = dirLight g"
  "dirLight2 (logCall c g) = dirLight2 g"
  "vertexShader (logCall c g) = vertexShader g"
  "pixelShader (logCall c g) = pixelShader g"
  "particleVS (logCall c g) = particleVS g"
  "particlePS (logCall c g) = particlePS g"
  by (simp_all add: logCall_def)

lemma getMesh_logCall: "getMesh r (logCall c g) = getMesh r g"
  by (simp add: getMesh_def logCall_simps split: mesh_ref.split)

lemma getEntity_logCall: "getEntity r (logCall c g) = getEntity r g"
  by (simp add: getEntity_def logCall_simps split: entity_ref.split)

lemma getShader_logCall: "getShader r (logCall c g) = getShader r g"
  by (cases r; simp add: getShader_def logCall_simps)

lemma newCalls_append: "calls g' = calls g @ cs \<Longrightarrow> newCalls g g' = cs"
  by (simp add: newCalls_def)

subsection \<open>Draw\<close>

lemmas Draw_unfold = Draw_def Let_def callPrepareMaterial_def Emitter_Draw_def logCall_simps
  getMesh_logCall getEntity_logCall GetViewMat_def GetProjectionMat_def getEntity_def

lemma Draw_calls:
  "calls (Draw dt tt g) = calls g @
     [ClearRenderTargetView (0.4, 0.6, 0.75, 0), ClearDepthStencilView 1 0,
      IASetVertexBuffers (GetVertexBuffer (getMesh (mesh (entityOne g)) g)),
      IASetIndexBuffer (GetIndexBuffer (getMesh (mesh (entityOne g)) g)),
      PrepareMaterial EntityOne (material (entityOne g)) (viewMat (gameCamera g)) (projectionMat (gameCamera g)),
      DrawIndexed (GetIndexCount (getMesh (mesh (entityOne g)) g)) 0 0,
      IASetVertexBuffers (GetVertexBuffer (getMesh (mesh (entityTwo g)) g)),
      IASetIndexBuffer (GetIndexBuffer (getMesh (mesh (entityTwo g)) g)),
      PrepareMaterial EntityTwo (material (entityTwo g)) (viewMat (gameCamera g)) (projectionMat (gameCamera g)),
      DrawIndexed (GetIndexCount (getMesh (mesh (entityTwo g)) g)) 0 0,
      IASetVertexBuffers (GetVertexBuffer (getMesh (mesh (entityThree g)) g)),
      IASetIndexBuffer (GetIndexBuffer (getMesh (mesh (entityThree g)) g)),
      PrepareMaterial EntityThree (material (entityThree g)) (viewMat (gameCamera g)) (projectionMat (gameCamera g)),
      DrawIndexed (GetIndexCount (getMesh (mesh (entityThree g)) g)) 0 0,
      OMSetBlendState (Some (particleBlendState g)),
      OMSetDepthStencilState (Some (particleDepthState g)),
      EmitterDraw (liveCount (emitter g)) (viewMat (gameCamera g)) (projectionMat (gameCamera g)),
      OMSetBlendState None, OMSetDepthStencilState None, Present]"
  by (simp add: Draw_unfold)

lemma Draw_frame:
  "gameCamera (Draw dt tt g) = gameCamera g"
  "particleBlendState (Draw dt tt g) = particleBlendState g"
  "particleDepthState (Draw dt tt g) = particleDepthState g"
  "quitRequested (Draw dt tt g) = quitRequested g"
  "emitter (Draw dt tt g) = emitter g"
  "prevMousePos (Draw dt tt g) = prevMousePos g"
  by (simp_all add: Draw_unfold)

subsection \<open>Update\<close>

lemmas Update_unfold = Update_def Let_def Quit_def logCall_simps

lemma Update_frame:
  "particleBlendState (Update inp dt tt g) = particleBlendState g"
  "particleDepthState (Update inp dt tt g) = particleDepthState g"
  "gameCamera (Update inp dt tt g) = Camera_Update (cameraVelocity inp) dt (gameCamera g)"
  "emitter (Update inp dt tt g) = Emitter_Update dt (emitter g)"
  "quitRequested (Update inp dt tt g) = (quitRequested g \<or> escapeKeyState inp \<noteq> 0)"
  "calls (Update inp dt tt g) =
     calls g @ GetAsyncKeyState_VK_ESCAPE # (if escapeKeyState inp \<noteq> 0 then [QuitCall] else [])"
  by (simp_all add: Update_unfold)

subsection \<open>LoadShaders and Init\<close>

lemma LoadShaders_steps:
  "LoadShaders env g =
     bindShaders (tryLoad env ParticlePSObj (tryLoad env ParticleVSObj
       (tryLoad env PixelShaderObj (tryLoad env VertexShaderObj g))))"
  unfolding LoadShaders_def tryLoad_def bindShaders_def primaryPath_def fallbackPath_def
    shader_ref.case Let_def split_def
  by (rule refl)

lemma setShader_frame:
  "calls (setShader r s g) = calls g"
  "rockSRV (setShader r s g) = rockSRV g"
  "woodSRV (setShader r s g) = woodSRV g"
  "sampler (setShader r s g) = sampler g"
  "particleBlendState (setShader r s g) = particleBlendState g"
  "particleDepthState (setShader r s g) = particleDepthState g"
  "emitter (setShader r s g) = emitter g"
  "gameCamera (setShader r s g) = gameCamera g"
  "width (setShader r s g) = width g"
  "height (setShader r s g) = height g"
  "prevMousePos (setShader r s g) = prevMousePos g"
  by (simp_all add: setShader_def split: shader_ref.split)

lemma getShader_setShader: "getShader r' (setShader r s g) = (if r' = r then s else getShader r' g)"
  by (cases r; cases r'; simp add: getShader_def setShader_def)

lemmas tryLoad_unfold = tryLoad_def Let_def callLoadShaderFile_def LoadShaderFile_def logCall_simps
  setShader_frame

lemma tryLoad_frame:
  "calls (tryLoad env r g) = calls g @ attempts env r"
  "rockSRV (tryLoad env r g) = rockSRV g"
  "woodSRV (tryLoad env r g) = woodSRV g"
  "sampler (tryLoad env r g) = sampler g"
  "particleBlendState (tryLoad env r g) = particleBlendState g"
  "particleDepthState (tryLoad env r g) = particleDepthState g"
  "emitter (tryLoad env r g) = emitter g"
  "gameCamera (tryLoad env r g) = gameCamera g"
  "width (tryLoad env r g) = width g"
  "height (tryLoad env r g) = height g"
  "prevMousePos (tryLoad env r g) = prevMousePos g"
  by (simp_all add: tryLoad_unfold attempts_def)

lemma getShader_tryLoad:
  "getShader r' (tryLoad env r g) = (if r' = r then \<lparr>shaderFile = resolved env r\<rparr> else getShader r' g)"
  by (simp add: tryLoad_def Let_def callLoadShaderFile_def LoadShaderFile_def getShader_logCall
      getShader_setShader resolved_def SimpleShader_new_def)

lemma bindShaders_frame:
  "calls (bindShaders g) = calls g @
     [SetSamplerState PixelShaderObj ''Sampler'', SetShaderResourceView PixelShaderObj ''Rocks'' (rockSRV g),
      SetShaderResourceView PixelShaderObj ''Wood'' (woodSRV g)]"
  "particleBlendState (bindShaders g) = particleBlendState g"
  "particleDepthState (bindShaders g) = particleDepthState g"
  "emitter (bindShaders g) = emitter g"
  "gameCamera (bindShaders g) = gameCamera g"
  "width (bindShaders g) = width g"
  "height (bindShaders g) = height g"
  "prevMousePos (bindShaders g) = prevMousePos g"
  "sampler (bindShaders g) = sampler g"
  "getShader r (bindShaders g) = getShader r g"
  by (simp_all add: bindShaders_def Let_def logCall_simps getShader_def split: shader_ref.split)

lemma LoadShaders_frame:
  "calls (LoadShaders env g) = calls g @ attempts env VertexShaderObj @ attempts env PixelShaderObj
     @ attempts env ParticleVSObj @ attempts env ParticlePSObj
     @ [SetSamplerState PixelShaderObj ''Sampler'', SetShaderResourceView PixelShaderObj ''Rocks'' (rockSRV g),
        SetShaderResourceView PixelShaderObj ''Wood'' (woodSRV g)]"
  "particleBlendState (LoadShaders env g) = particleBlendState g"
  "particleDepthState (LoadShaders env g) = particleDepthState g"
  "emitter (LoadShaders env g) = emitter g"
  "gameCamera (LoadShaders env g) = gameCamera g"
  "width (LoadShaders env g) = width g"
  "height (LoadShaders env g) = height g"
  "prevMousePos (LoadShaders env g) = prevMousePos g"
  "sampler (LoadShaders env g) = sampler g"
  by (simp_all add: LoadShaders_steps bindShaders_frame tryLoad_frame)

lemma LoadShaders_shader:
  "getShader r (LoadShaders env g) = \<lparr>shaderFile = resolved env r\<rparr>"
  by (cases r; simp add: LoadShaders_steps bindShaders_frame getShader_tryLoad)

lemma loadAttempts_append: "loadAttempts r (xs @ ys) = loadAttempts r xs @ loadAttempts r ys"
  by (induction r xs rule: loadAttempts.induct) simp_all

lemma loadAttempts_attempts:
  "loadAttempts r (attempts env r') =
     (if r' = r then primaryPath r # (if shaderFileLoads env (primaryPath r) then [] else [fallbackPath r]) else [])"
  by (simp add: attempts_def)

lemma LoadShaders_attempts:
  "loadAttempts r (newCalls g (LoadShaders env g)) =
     (if shaderFileLoads env (primaryPath r) then [primaryPath r] else [primaryPath r, fallbackPath r])"
  by (cases r; simp add: newCalls_def LoadShaders_frame loadAttempts_append loadAttempts_attempts)

lemma CreateMatrices_frame:
  "calls (CreateMatrices env g) = calls g"
  "particleBlendState (CreateMatrices env g) = particleBlendState g"
  "particleDepthState (CreateMatrices env g) = particleDepthState g"
  "emitter (CreateMatrices env g) = emitter g"
  "gameCamera (CreateMatrices env g) = SetProjectionMat (width g) (height g) (Camera_new (cameraSensitivity env))"
  "width (CreateMatrices env g) = width g"
  "height (CreateMatrices env g) = height g"
  "prevMousePos (CreateMatrices env g) = prevMousePos g"
  "sampler (CreateMatrices env g) = sampler g"
  "getShader r (CreateMatrices env g) = getShader r g"
  by (simp_all add: CreateMatrices_def Let_def getShader_def split: shader_ref.split)

lemma CreateBasicGeometry_frame:
  "calls (CreateBasicGeometry env g) = calls g"
  "particleBlendState (CreateBasicGeometry env g) = particleBlendState g"
  "particleDepthState (CreateBasicGeometry env g) = particleDepthState g"
  "emitter (CreateBasicGeometry env g) = emitter g"
  "gameCamera (CreateBasicGeometry env g) = gameCamera g"
  "width (CreateBasicGeometry env g) = width g"
  "height (CreateBasicGeometry env g) = height g"
  "prevMousePos (CreateBasicGeometry env g) = prevMousePos g"
  "sampler (CreateBasicGeometry env g) = sampler g"
  "getShader r (CreateBasicGeometry env g) = getShader r g"
  by (simp_all add: CreateBasicGeometry_def Let_def getShader_def split: shader_ref.split)

lemmas Init_unfold = Init_def Let_def logCall_simps LoadShaders_frame CreateMatrices_frame
  CreateBasicGeometry_frame

lemma Init_frame:
  "particleBlendState (Init env g) =
     \<lparr>AlphaToCoverageEnable = False, IndependentBlendEnable = False,
      BlendEnable = True, BlendOp = D3D11_BLEND_OP_ADD,
      SrcBlend = D3D11_BLEND_ONE, DestBlend = D3D11_BLEND_ONE,
      BlendOpAlpha = D3D11_BLEND_OP_ADD,
      SrcBlendAlpha = D3D11_BLEND_ONE, DestBlendAlpha = D3D11_BLEND_ONE,
      RenderTargetWriteMask = 0x0f\<rparr>"
  "particleDepthState (Init env g) =
     \<lparr>DepthEnable = True, DepthWriteMask = D3D11_DEPTH_WRITE_MASK_ZERO,
      DepthFunc = D3D11_COMPARISON_LESS\<rparr>"
  "emitter (Init env g) =
     Emitter_new 1000 100 5 0.1 5.0 (1, 0.1, 0.1, 0.2) (1, 0.6, 0.1, 0) (- 2, 2, 0) (2, 0, 0) (0, - 1, 0)"
  "gameCamera (Init env g) = SetProjectionMat (width g) (height g) (Camera_new (cameraSensitivity env))"
  "width (Init env g) = width g"
  "height (Init env g) = height g"
  "prevMousePos (Init env g) = prevMousePos g"
  by (simp_all add: Init_unfold)

lemma Init_calls:
  "calls (Init env g) = calls g @
     [CreateWICTextureFromFile ''Debug/Assets/Textures/MossRock.tif'',
      CreateWICTextureFromFile ''Debug/Assets/Textures/TreeBark.tif'',
      CreateSamplerState \<lparr>Filter = D3D11_FILTER_ANISOTROPIC, AddressU = D3D11_TEXTURE_ADDRESS_WRAP,
                         AddressV = D3D11_TEXTURE_ADDRESS_WRAP, AddressW = D3D11_TEXTURE_ADDRESS_WRAP,
                         MaxAnisotropy = 16, MaxLODIsFloatMax = True\<rparr>,
      CreateDepthStencilState (particleDepthState (Init env g)),
      CreateBlendState (particleBlendState (Init env g))]
     @ attempts env VertexShaderObj @ attempts env PixelShaderObj
     @ attempts env ParticleVSObj @ attempts env ParticlePSObj
     @ [SetSamplerState PixelShaderObj ''Sampler'',
        SetShaderResourceView PixelShaderObj ''Rocks'' ''Debug/Assets/Textures/MossRock.tif'',
        SetShaderResourceView PixelShaderObj ''Wood'' ''Debug/Assets/Textures/TreeBark.tif'',
        SetData PixelShaderObj ''light'' \<lparr>AmbietColor = (0.1, 0.1, 0.1, 1.0), DiffuseColor = (1, 0, 0, 1),
                              Direction = (0, - 1, 0)\<rparr>,
        SetData PixelShaderObj ''light2'' \<lparr>AmbietColor = (0.1, 0.1, 0.1, 1.0), DiffuseColor = (1, 1, 1, 1),
                               Direction = (0, 0, 1)\<rparr>,
        IASetPrimitiveTopology]"
  by (simp add: Init_frame) (simp add: Init_unfold)

lemma Init_shader: "getShader r (Init env g) = \<lparr>shaderFile = resolved env r\<rparr>"
proof -
  have *: "\<And>f g'. getShader r (g'\<lparr>dirLight := f\<rparr>) = getShader r g'"
          "\<And>f g'. getShader r (g'\<lparr>dirLight2 := f\<rparr>) = getShader r g'"
    by (simp_all add: getShader_def split: shader_ref.split)
  show ?thesis
    by (simp add: Init_def Let_def getShader_logCall * CreateMatrices_frame CreateBasicGeometry_frame
        LoadShaders_shader)
qed

subsection \<open>Resize and mouse handlers\<close>

lemma OnResize_frame:
  "calls (OnResize g) = calls g @ [DXCore_OnResize]"
  "particleBlendState (OnResize g) = particleBlendState g"
  "particleDepthState (OnResize g) = particleDepthState g"
  "gameCamera (OnResize g) = SetProjectionMat (width g) (height g) (gameCamera g)"
  "quitRequested (OnResize g) = quitRequested g"
  by (simp_all add: OnResize_def Let_def logCall_simps)

lemma OnMouseDown_frame:
  "particleBlendState (OnMouseDown b x y g) = particleBlendState g"
  "particleDepthState (OnMouseDown b x y g) = particleDepthState g"
  "gameCamera (OnMouseDown b x y g) = gameCamera g"
  by (simp_all add: OnMouseDown_def Let_def logCall_simps)

lemma OnMouseUp_frame:
  "particleBlendState (OnMouseUp b x y g) = particleBlendState g"
  "particleDepthState (OnMouseUp b x y g) = particleDepthState g"
  "gameCamera (OnMouseUp b x y g) = gameCamera g"
  by (simp_all add: OnMouseUp_def Let_def logCall_simps)

lemma OnMouseMove_frame:
  "particleBlendState (OnMouseMove b x y g) = particleBlendState g"
  "particleDepthState (OnMouseMove b x y g) = particleDepthState g"
  by (simp_all add: OnMouseMove_def Let_def callRotateCamera_def logCall_simps)

lemma OnMouseMove_camera:
  "gameCamera (OnMouseMove b x y g) =
     (if bit b 0 \<and> (x, y) \<noteq> prevMousePos g
      then RotateCamera (intToFloat (x - fst (prevMousePos g))) (intToFloat (y - snd (prevMousePos g)))
             (gameCamera g)
      else gameCamera g)"
  by (auto simp add: OnMouseMove_def Let_def callRotateCamera_def logCall_simps
      and_one_eq prod_eq_iff mod_2_eq_odd bit_0)

subsection \<open>The camera\<close>

lemma camera_projection:
  "projectionMat (RotateCamera dx dy c) = projectionMat c"
  "projectionMat (Camera_Update v dt c) = projectionMat c"
  "projectionMat (SetProjectionMat w h c) = (w, h)"
  by (simp_all add: RotateCamera_def Camera_Update_def SetProjectionMat_def Let_def)

lemma camera_pitch:
  "pitch (Camera_Update v dt c) = pitch c"
  "pitch (SetProjectionMat w h c) = pitch c"
  "pitch (Camera_new s) = 0"
  by (simp_all add: Camera_Update_def SetProjectionMat_def Camera_new_def Let_def)

lemma RotateCamera_pitchOK: "pitchOK (RotateCamera dx dy c)"
  by (simp add: RotateCamera_def clamp_def pitchOK_def)

lemma rotateAll_pitchOK: "pitchOK (rotateAll (d # ds) c)"
proof (induction ds arbitrary: d c)
  case Nil
  show ?case by (simp add: RotateCamera_pitchOK)
next
  case (Cons d' ds)
  have "rotateAll (d # d' # ds) c = rotateAll (d' # ds) (RotateCamera (fst d) (snd d) c)"
    by simp
  with Cons show ?case by (simp only:)
qed

subsection \<open>Sequences of handlers\<close>

lemma dispatch_states:
  "particleBlendState (dispatch ev g) = particleBlendState g"
  "particleDepthState (dispatch ev g) = particleDepthState g"
  by (cases ev; simp add: dispatch_def Update_frame Draw_frame OnResize_frame OnMouseDown_frame
      OnMouseUp_frame OnMouseMove_frame OnMouseWheel_def)+

lemma run_states:
  "particleBlendState (run evs g) = particleBlendState g"
  "particleDepthState (run evs g) = particleDepthState g"
  by (induction evs arbitrary: g; simp add: dispatch_states)+

lemma dispatch_projection:
  "\<not> isResize ev \<Longrightarrow> projectionMat (gameCamera (dispatch ev g)) = projectionMat (gameCamera g)"
  by (cases ev; simp add: dispatch_def isResize_def Update_frame Draw_frame OnMouseDown_frame
      OnMouseUp_frame OnMouseMove_camera OnMouseWheel_def camera_projection)

lemma run_projection:
  "list_all (\<lambda>ev. \<not> isResize ev) evs \<Longrightarrow> projectionMat (gameCamera (run evs g)) = projectionMat (gameCamera g)"
  by (induction evs arbitrary: g) (simp_all add: dispatch_projection)

lemma dispatch_pitch: "pitchOK (gameCamera g) \<Longrightarrow> pitchOK (gameCamera (dispatch ev g))"
  by (cases ev; simp add: dispatch_def Update_frame Draw_frame OnMouseDown_frame OnResize_frame
      OnMouseUp_frame OnMouseMove_camera OnMouseWheel_def camera_pitch pitchOK_def RotateCamera_pitchOK
      RotateCamera_pitchOK [unfolded pitchOK_def])

lemma run_pitch: "pitchOK (gameCamera g) \<Longrightarrow> pitchOK (gameCamera (run evs g))"
  by (induction evs arbitrary: g) (simp_all add: dispatch_pitch)

lemma noDrawAfterQuit_append:
  "QuitCall \<notin> set xs \<Longrightarrow> noDrawAfterQuit (xs @ ys) = noDrawAfterQuit ys"
  by (induction xs) auto

lemma framePump_calls: "\<exists>cs. calls (framePump fs g) = calls g @ cs \<and> noDrawAfterQuit cs"
proof (induction fs g rule: framePump.induct)
  case (1 g)
  show ?case by simp
next
  case (2 inp dt tt fs g)
  show ?case
  proof (cases "quitRequested g")
    case True
    then show ?thesis by simp
  next
    case notq: False
    show ?thesis
    proof (cases "escapeKeyState inp = 0")
      case False
      with notq have "calls (framePump ((inp, dt, tt) # fs) g) = calls g @ [GetAsyncKeyState_VK_ESCAPE, QuitCall]"
        by (simp add: Let_def Update_frame)
      then show ?thesis by simp
    next
      case True
      let ?g1 = "Update inp dt tt g"
      let ?g2 = "Draw dt tt ?g1"
      from True notq have q1: "\<not> quitRequested ?g1"
        by (simp add: Update_frame)
      from "2.IH" [OF notq refl q1] obtain cs
        where cs: "calls (framePump fs ?g2) = calls ?g2 @ cs" "noDrawAfterQuit cs"
        by blast
      obtain ds where ds: "calls ?g2 = calls g @ ds" "QuitCall \<notin> set ds"
        using True by (simp add: Draw_calls Update_frame)
      from notq q1 have "framePump ((inp, dt, tt) # fs) g = framePump fs ?g2"
        by (simp add: Let_def)
      with cs ds have "calls (framePump ((inp, dt, tt) # fs) g) = calls g @ (ds @ cs)"
        by simp
      moreover from cs ds have "noDrawAfterQuit (ds @ cs)"
        by (simp add: noDrawAfterQuit_append)
      ultimately show ?thesis by blast
    qed
  qed
qed

section \<open>Facts about rounding\<close>

lemmas fl_eval = toFloat_def toDouble_def roundBinary_def floorLog2_def roundHalfEven_def pow2_def
  bitLength.simps Let_def

lemma bitLength_le: "n < 2 ^ k \<Longrightarrow> bitLength n \<le> k"
proof (induction n arbitrary: k rule: bitLength.induct)
  case (1 n)
  show ?case
  proof (cases "n = 0")
    case True
    then show ?thesis by (simp add: bitLength.simps)
  next
    case False
    with "1.prems" obtain j where k: "k = Suc j"
      by (cases k) auto
    with "1.prems" have "n div 2 < 2 ^ j" by auto
    from "1.IH" [OF False this] False k show ?thesis
      by (subst bitLength.simps) simp
  qed
qed

text \<open>
  \<open>floorLog2\<close> is the binary exponent, and a rounded value lies within half a unit in
  the last place of the value it rounds.
\<close>

lemma bitLength_bounds: "0 < n \<Longrightarrow> 2 ^ (bitLength n - 1) \<le> n \<and> n < 2 ^ bitLength n"
proof (induction n rule: bitLength.induct)
  case (1 n)
  then have n: "n \<noteq> 0" by simp
  have bl: "bitLength n = Suc (bitLength (n div 2))"
    using n by (subst bitLength.simps) simp
  show ?case
  proof (cases "n div 2 = 0")
    case True
    with n have "n = 1" by (auto simp add: div_eq_0_iff)
    then show ?thesis
      by (simp add: bl) (simp add: bitLength.simps)
  next
    case False
    with "1.IH" [OF n] have ih: "2 ^ (bitLength (n div 2) - 1) \<le> n div 2" "n div 2 < 2 ^ bitLength (n div 2)"
      by simp_all
    from False have pos: "0 < bitLength (n div 2)"
      by (subst bitLength.simps) simp
    then obtain j where j: "bitLength (n div 2) = Suc j"
      by (cases "bitLength (n div 2)") auto
    from ih j have "2 ^ j \<le> n div 2" "n div 2 < 2 ^ Suc j" by simp_all
    then have "2 * 2 ^ j \<le> n" "n < 2 * 2 ^ Suc j" by linarith+
    then show ?thesis
      by (simp add: bl j)
  qed
qed

lemma floorLog2_bounds:
  assumes "0 < x"
  shows "pow2 (floorLog2 x) \<le> x \<and> x < pow2 (floorLog2 x + 1)"
proof (cases "1 \<le> x")
  case True
  let ?n = "nat \<lfloor>x\<rfloor>"
  from True have n: "0 < ?n" by simp
  from bitLength_bounds [OF n] have b: "2 ^ (bitLength ?n - 1) \<le> ?n" "?n < 2 ^ bitLength ?n"
    by simp_all
  from n have bp: "0 < bitLength ?n"
    by (subst bitLength.simps) simp
  have "real ?n \<le> x" using True by simp
  moreover have "x < real ?n + 1" using True by simp
  moreover from b(1) have "(2 :: real) ^ (bitLength ?n - 1) \<le> real ?n"
    by (metis of_nat_le_iff of_nat_numeral of_nat_power)
  moreover from b(2) have "real ?n + 1 \<le> 2 ^ bitLength ?n"
    by (metis Suc_leI of_nat_Suc of_nat_le_iff of_nat_numeral of_nat_power add.commute)
  ultimately have "2 ^ (bitLength ?n - 1) \<le> x" "x < 2 ^ bitLength ?n"
    by linarith+
  moreover have "floorLog2 x = int (bitLength ?n) - 1"
    using True by (simp add: floorLog2_def)
  moreover have "nat (int (bitLength ?n) - 1) = bitLength ?n - 1" by simp
  ultimately show ?thesis
    using bp by (simp add: pow2_def)
next
  case False
  let ?r = "1 / x"
  let ?m = "nat (\<lceil>?r\<rceil> - 1)"
  from False assms have r1: "1 < ?r" by simp
  then have c2: "2 \<le> \<lceil>?r\<rceil>" by linarith
  then have m: "0 < ?m" by simp
  from bitLength_bounds [OF m] have b: "2 ^ (bitLength ?m - 1) \<le> ?m" "?m < 2 ^ bitLength ?m"
    by simp_all
  from m have bp: "0 < bitLength ?m"
    by (subst bitLength.simps) simp
  have mr: "real ?m < ?r" using c2 by simp linarith
  have rm: "?r \<le> real ?m + 1" using c2 by simp linarith
  from b(1) have "(2 :: real) ^ (bitLength ?m - 1) \<le> real ?m"
    by (metis of_nat_le_iff of_nat_numeral of_nat_power)
  with mr have lo: "2 ^ (bitLength ?m - 1) < ?r" by linarith
  from b(2) have "real ?m + 1 \<le> 2 ^ bitLength ?m"
    by (metis Suc_leI of_nat_Suc of_nat_le_iff of_nat_numeral of_nat_power add.commute)
  with rm have hi: "?r \<le> 2 ^ bitLength ?m" by linarith
  from hi assms have 1: "1 / 2 ^ bitLength ?m \<le> x"
    by (simp add: field_simps)
  from lo assms have 2: "x < 1 / 2 ^ (bitLength ?m - 1)"
    by (simp add: field_simps)
  have fl: "floorLog2 x = - int (bitLength ?m)"
    using False by (simp add: floorLog2_def)
  show ?thesis
  proof (cases "bitLength ?m = 1")
    case True
    with 1 2 show ?thesis by (simp add: fl pow2_def)
  next
    case False
    with bp have "1 < bitLength ?m" by simp
    then have "nat (int (bitLength ?m) - 1) = bitLength ?m - 1" "\<not> 0 \<le> 1 - int (bitLength ?m)"
      by simp_all
    with 1 2 bp show ?thesis by (simp add: fl pow2_def)
  qed
qed

lemma roundHalfEven_error: "\<bar>of_int (roundHalfEven q) - q\<bar> \<le> 1 / 2"
  unfolding roundHalfEven_def Let_def by (auto simp add: abs_le_iff)

lemma pow2_pos: "0 < pow2 e"
  by (simp add: pow2_def)

lemma roundBinary_error:
  "\<bar>roundBinary p emin x - x\<bar> \<le> pow2 (max emin (floorLog2 \<bar>x\<bar> - (int p - 1))) / 2"
proof (cases "x = 0")
  case True
  then show ?thesis
    using pow2_pos [of "max emin (floorLog2 \<bar>x\<bar> - (int p - 1))"] by (simp add: roundBinary_def)
next
  case False
  define u where "u = pow2 (max emin (floorLog2 \<bar>x\<bar> - (int p - 1)))"
  have u: "0 < u" by (simp add: u_def pow2_pos)
  have "\<bar>of_int (roundHalfEven (x / u)) - x / u\<bar> \<le> 1 / 2"
    by (rule roundHalfEven_error)
  then have "\<bar>of_int (roundHalfEven (x / u)) - x / u\<bar> * u \<le> 1 / 2 * u"
    using u by (simp only: mult_le_cancel_right_pos)
  moreover have "\<bar>of_int (roundHalfEven (x / u)) - x / u\<bar> * u = \<bar>of_int (roundHalfEven (x / u)) * u - x\<bar>"
  proof -
    have "\<bar>of_int (roundHalfEven (x / u)) - x / u\<bar> * u = \<bar>(of_int (roundHalfEven (x / u)) - x / u) * u\<bar>"
      using u by (simp add: abs_mult)
    also have "(of_int (roundHalfEven (x / u)) - x / u) * u = of_int (roundHalfEven (x / u)) * u - x"
      using u by (simp add: left_diff_distrib)
    finally show ?thesis .
  qed
  ultimately have "\<bar>of_int (roundHalfEven (x / u)) * u - x\<bar> \<le> u / 2"
    by simp
  with False show ?thesis
    by (simp add: roundBinary_def Let_def u_def)
qed

lemma roundHalfEven_int: "roundHalfEven (of_int z) = z"
  by (simp add: roundHalfEven_def)

text \<open>An integer below \<open>2^24\<close> in magnitude is a \<open>float\<close>: its conversion is exact.\<close>

lemma toFloat_of_int:
  assumes "\<bar>d\<bar> < 2 ^ 24"
  shows "toFloat (of_int d) = of_int d"
proof (cases "d = 0")
  case True
  then show ?thesis by (simp add: toFloat_def roundBinary_def)
next
  case False
  let ?n = "nat \<bar>d\<bar>"
  from assms have "?n < 2 ^ 24"
    by (simp add: nat_less_iff)
  then have bl: "bitLength ?n \<le> 24" by (rule bitLength_le)
  from False have "1 \<le> \<bar>d\<bar>" by linarith
  then have "(1 :: real) \<le> of_int \<bar>d\<bar>"
    by (simp only: of_int_1_le_iff)
  then have one: "1 \<le> \<bar>real_of_int d\<bar>"
    by simp
  have fl: "floorLog2 \<bar>real_of_int d\<bar> = int (bitLength ?n) - 1"
    using one by (simp add: floorLog2_def flip: of_int_abs)
  define e where "e = max (- 149) (floorLog2 \<bar>real_of_int d\<bar> - (int 24 - 1))"
  from bl fl have e: "e \<le> 0" by (simp add: e_def)
  then have p: "pow2 e = 1 / 2 ^ nat (- e)"
    by (cases "e = 0") (simp_all add: pow2_def)
  have "real_of_int d / pow2 e = of_int (d * 2 ^ nat (- e))"
    by (simp add: p)
  then have "roundHalfEven (real_of_int d / pow2 e) = d * 2 ^ nat (- e)"
    by (simp only: roundHalfEven_int)
  then have "of_int (roundHalfEven (real_of_int d / pow2 e)) * pow2 e = real_of_int d"
    by (simp add: p)
  with False show ?thesis
    by (simp add: toFloat_def roundBinary_def Let_def e_def)
qed

lemma sint_diff_16:
  fixes x p :: "32 word"
  assumes "coord16 x" "coord16 p"
  shows "sint (x - p) = sint x - sint p"
proof -
  have "sint (x - p) = signed_take_bit 31 (sint x - sint p)"
    by (simp add: sint_word_ariths)
  also have "\<dots> = sint x - sint p"
    using assms by (intro signed_take_bit_int_eq_self) (simp_all add: coord16_def)
  finally show ?thesis .
qed

lemma intToFloat_diff_16:
  assumes "coord16 x" "coord16 p"
  shows "intToFloat (x - p) = real_of_int (sint x - sint p)"
proof -
  from assms have "\<bar>sint x - sint p\<bar> < 2 ^ 24"
    by (simp add: coord16_def abs_less_iff)
  then show ?thesis
    by (simp only: intToFloat_def sint_diff_16 [OF assms] toFloat_of_int)
qed

section \<open>The claims settled on Game.cpp\<close>

text \<open>
  C4. Every call of \<open>Game::Draw\<close>, in whatever state of the game, issues exactly these
  calls in exactly this order: it clears the render target and the depth buffer; for each
  of the three entities in turn it binds the vertex and index buffer of the entity's mesh,
  prepares the entity's material with the camera's matrices and issues the indexed draw;
  it sets the particle blend state and the particle depth state; it draws the emitter; it
  resets both states to the default; it presents the frame. In every game that \<open>Init\<close>
  has set up, whatever handlers ran since, the particle blend state is the additive one
  and the particle depth state has depth writes off.
\<close>

theorem Draw_strict_order:
  "calls (Draw deltaTime totalTime g) = calls g @
     [ClearRenderTargetView (0.4, 0.6, 0.75, 0), ClearDepthStencilView 1 0,
      IASetVertexBuffers (GetVertexBuffer (getMesh (mesh (entityOne g)) g)),
      IASetIndexBuffer (GetIndexBuffer (getMesh (mesh (entityOne g)) g)),
      PrepareMaterial EntityOne (material (entityOne g)) (viewMat (gameCamera g)) (projectionMat (gameCamera g)),
      DrawIndexed (GetIndexCount (getMesh (mesh (entityOne g)) g)) 0 0,
      IASetVertexBuffers (GetVertexBuffer (getMesh (mesh (entityTwo g)) g)),
      IASetIndexBuffer (GetIndexBuffer (getMesh (mesh (entityTwo g)) g)),
      PrepareMaterial EntityTwo (material (entityTwo g)) (viewMat (gameCamera g)) (projectionMat (gameCamera g)),
      DrawIndexed (GetIndexCount (getMesh (mesh (entityTwo g)) g)) 0 0,
      IASetVertexBuffers (GetVertexBuffer (getMesh (mesh (entityThree g)) g)),
      IASetIndexBuffer (GetIndexBuffer (getMesh (mesh (entityThree g)) g)),
      PrepareMaterial EntityThree (material (entityThree g)) (viewMat (gameCamera g)) (projectionMat (gameCamera g)),
      DrawIndexed (GetIndexCount (getMesh (mesh (entityThree g)) g)) 0 0,
      OMSetBlendState (Some (particleBlendState g)),
      OMSetDepthStencilState (Some (particleDepthState g)),
      EmitterDraw (liveCount (emitter g)) (viewMat (gameCamera g)) (projectionMat (gameCamera g)),
      OMSetBlendState None, OMSetDepthStencilState None, Present]
   \<and> additive (particleBlendState (run evs (Init env g0)))
   \<and> noDepthWrite (particleDepthState (run evs (Init env g0)))"
proof -
  have "additive (particleBlendState (run evs (Init env g0)))"
    by (simp add: run_states Init_frame additive_def)
  moreover have "noDepthWrite (particleDepthState (run evs (Init env g0)))"
    by (simp add: run_states Init_frame noDepthWrite_def)
  ultimately show ?thesis
    using Draw_calls [of deltaTime totalTime g] by (simp only: simp_thms)
qed

text \<open>
  C9, as stated, fails: the sum is rounded to \<open>float\<close>. With the sphere's y rotation at
  2048, where neighbouring floats are \<open>2^-12\<close> apart, an \<open>Update\<close> leaves it at 2048: the
  rotation is not increased by 0.0001, nor at all.
\<close>

theorem Update_rotation_stalls_counterexample:
  "vy (rotation (entityOne sphereAt2048)) = 2048
   \<and> vy (rotation (entityOne (Update \<lparr>escapeKeyState = 0, cameraVelocity = (0, 0, 0)\<rparr> (1 / 60) 1 sphereAt2048))) = 2048
   \<and> vy (rotation (entityOne (Update \<lparr>escapeKeyState = 0, cameraVelocity = (0, 0, 0)\<rparr> (1 / 60) 1 sphereAt2048)))
       \<noteq> vy (rotation (entityOne sphereAt2048)) + 0.0001"
proof -
  have r: "rotation (entityOne sphereAt2048) = (0, 2048, 0)"
    by (simp add: sphereAt2048_def Let_def SetRotation_def)
  have "vy (rotation (entityOne (Update inp dt tt sphereAt2048))) = toFloat (toDouble (2048 + toDouble 0.0001))"
    for inp dt tt
    by (simp add: Update_unfold SetRotation_def FinalizeMatrix_def r vx_def vy_def vz_def)
  also have "toFloat (toDouble (2048 + toDouble 0.0001)) = 2048"
    by (simp add: fl_eval)
  finally show ?thesis
    by (simp add: r vy_def)
qed

text \<open>
  C9, amended. Whatever \<open>deltaTime\<close>, \<open>totalTime\<close> and keyboard state \<open>Game::Update\<close> is
  called with, it leaves the x and z rotation of \<open>entityOne\<close> as they were and sets its y
  rotation to the \<open>float\<close> nearest to the \<open>double\<close> sum of the old value and the constant
  0.0001; the entity's world matrix is then the one computed from the new rotation (with
  the position and scale unchanged). The step depends on the old value and on nothing
  else: the rotation advances per frame, not per unit of elapsed time.
\<close>

theorem Update_entityOne_rotation:
  "rotation (entityOne (Update inp deltaTime totalTime g)) =
     (vx (rotation (entityOne g)),
      toFloat (toDouble (vy (rotation (entityOne g)) + toDouble 0.0001)),
      vz (rotation (entityOne g)))
   \<and> worldMat (entityOne (Update inp deltaTime totalTime g)) =
     (position (entityOne g),
      (vx (rotation (entityOne g)),
       toFloat (toDouble (vy (rotation (entityOne g)) + toDouble 0.0001)),
       vz (rotation (entityOne g))),
      scale (entityOne g))"
  by (simp add: Update_unfold SetRotation_def FinalizeMatrix_def)

theorem Update_entityOne_rotation_witness:
  "rotation (entityOne (Update \<lparr>escapeKeyState = 0, cameraVelocity = (0, 0, 0)\<rparr> (1 / 60) 1 (Game_new zeroGame)))
     = (0, 13743895 / 2 ^ 37, 0)
   \<and> rotation (entityOne (Update \<lparr>escapeKeyState = 1, cameraVelocity = (1, 0, 0)\<rparr> 5 7 (Game_new zeroGame)))
     = (0, 13743895 / 2 ^ 37, 0)"
proof -
  have r: "rotation (entityOne (Game_new zeroGame)) = (0, 0, 0)"
    by (simp add: Game_new_def zeroGame_def Entity_new_def)
  have f: "toFloat (toDouble (0 + toDouble 0.0001)) = 13743895 / 2 ^ 37"
    by (simp add: fl_eval)
  from Update_entityOne_rotation [of "\<lparr>escapeKeyState = 0, cameraVelocity = (0, 0, 0)\<rparr>" "1 / 60" 1 "Game_new zeroGame"]
    Update_entityOne_rotation [of "\<lparr>escapeKeyState = 1, cameraVelocity = (1, 0, 0)\<rparr>" 5 7 "Game_new zeroGame"]
  show ?thesis
    unfolding r vx_def vy_def vz_def fst_conv snd_conv f by simp
qed

text \<open>
  C10. \<open>Game::OnMouseMove(buttonState, x, y)\<close> always ends with \<open>prevMousePos = (x, y)\<close>.
  It calls the camera's \<open>RotateCamera\<close>, once and with the arguments
  \<open>(x - prevMousePos.x, y - prevMousePos.y)\<close>, each the \<open>int\<close> difference converted to
  \<open>float\<close>, exactly when bit 0 of \<open>buttonState\<close> is set and \<open>(x, y)\<close> differs from the
  stored position; otherwise it makes no call and leaves the camera as it was. For 16-bit
  coordinates, stored and new, the arguments are the differences of the coordinates as
  numbers: nothing wraps and nothing is rounded.
\<close>

theorem OnMouseMove_rotates_and_stores:
  "prevMousePos (OnMouseMove buttonState x y g) = (x, y)
   \<and> newCalls g (OnMouseMove buttonState x y g) =
     (if bit buttonState 0 \<and> (x, y) \<noteq> prevMousePos g
      then [RotateCameraCall (intToFloat (x - fst (prevMousePos g))) (intToFloat (y - snd (prevMousePos g)))]
      else [])
   \<and> gameCamera (OnMouseMove buttonState x y g) =
     (if bit buttonState 0 \<and> (x, y) \<noteq> prevMousePos g
      then RotateCamera (intToFloat (x - fst (prevMousePos g))) (intToFloat (y - snd (prevMousePos g)))
             (gameCamera g)
      else gameCamera g)
   \<and> (coord16 x \<and> coord16 y \<and> coord16 (fst (prevMousePos g)) \<and> coord16 (snd (prevMousePos g)) \<longrightarrow>
        intToFloat (x - fst (prevMousePos g)) = real_of_int (sint x - sint (fst (prevMousePos g)))
        \<and> intToFloat (y - snd (prevMousePos g)) = real_of_int (sint y - sint (snd (prevMousePos g))))"
proof -
  have "prevMousePos (OnMouseMove buttonState x y g) = (x, y)
   \<and> newCalls g (OnMouseMove buttonState x y g) =
     (if bit buttonState 0 \<and> (x, y) \<noteq> prevMousePos g
      then [RotateCameraCall (intToFloat (x - fst (prevMousePos g))) (intToFloat (y - snd (prevMousePos g)))]
      else [])
   \<and> gameCamera (OnMouseMove buttonState x y g) =
     (if bit buttonState 0 \<and> (x, y) \<noteq> prevMousePos g
      then RotateCamera (intToFloat (x - fst (prevMousePos g))) (intToFloat (y - snd (prevMousePos g)))
             (gameCamera g)
      else gameCamera g)"
    by (auto simp add: OnMouseMove_def Let_def callRotateCamera_def logCall_simps newCalls_def
        and_one_eq prod_eq_iff mod_2_eq_odd bit_0)
  then show ?thesis
    using intToFloat_diff_16 by blast
qed

theorem OnMouseMove_rotates_and_stores_witness:
  "coord16 10 \<and> coord16 20 \<and> coord16 (fst (prevMousePos zeroGame)) \<and> coord16 (snd (prevMousePos zeroGame))
   \<and> bit (1 :: 64 word) 0 \<and> (10, 20) \<noteq> prevMousePos zeroGame
   \<and> prevMousePos (OnMouseMove 1 10 20 zeroGame) = (10, 20)
   \<and> newCalls zeroGame (OnMouseMove 1 10 20 zeroGame) = [RotateCameraCall 10 20]
   \<and> prevMousePos (OnMouseMove 2 10 20 zeroGame) = (10, 20)
   \<and> newCalls zeroGame (OnMouseMove 2 10 20 zeroGame) = []
   \<and> newCalls strayMouseGame (OnMouseMove 1 0 0 strayMouseGame) = [RotateCameraCall 16777216 0]"
proof -
  have p: "prevMousePos zeroGame = (0, 0)" "prevMousePos strayMouseGame = (- 16777217, 0)"
    by (simp_all add: zeroGame_def strayMouseGame_def)
  have c: "coord16 10" "coord16 20" "coord16 0"
    by (simp_all add: coord16_def)
  have s: "sint (0 - (- 16777217) :: 32 word) = 16777217"
    by simp
  have f: "intToFloat (0 - (- 16777217)) = 16777216" "intToFloat (0 - 0) = 0"
    unfolding intToFloat_def s by (simp_all add: fl_eval)
  from OnMouseMove_rotates_and_stores [of 1 10 20 zeroGame]
    OnMouseMove_rotates_and_stores [of 2 10 20 zeroGame]
    OnMouseMove_rotates_and_stores [of 1 0 0 strayMouseGame]
  show ?thesis
    unfolding p fst_conv snd_conv f using c by simp
qed

text \<open>
  C6. For each of the four shader objects, \<open>LoadShaders\<close> calls \<open>LoadShaderFile\<close> first
  with the path under \<open>Debug/\<close> and, exactly when that call fails, once more with the
  fallback path; no third attempt is made. After \<open>Init\<close> the shader resource is the file
  that loaded, and null when both attempts failed. \<open>Init\<close> has no error result: whichever
  files load, it goes on to make all its other calls, in the same order, the primitive
  topology last.
\<close>

theorem LoadShaders_fallback_then_continue:
  "loadAttempts r (newCalls g (LoadShaders env g)) =
     (if shaderFileLoads env (primaryPath r) then [primaryPath r] else [primaryPath r, fallbackPath r])
   \<and> shaderFile (getShader r (Init env g)) =
     (if shaderFileLoads env (primaryPath r) then Some (primaryPath r)
      else if shaderFileLoads env (fallbackPath r) then Some (fallbackPath r) else None)
   \<and> filter (\<lambda>c. \<not> isLoadCall c) (newCalls g (Init env g)) =
     [CreateWICTextureFromFile ''Debug/Assets/Textures/MossRock.tif'',
      CreateWICTextureFromFile ''Debug/Assets/Textures/TreeBark.tif'',
      CreateSamplerState (sampler (Init env g)),
      CreateDepthStencilState (particleDepthState (Init env g)),
      CreateBlendState (particleBlendState (Init env g)),
      SetSamplerState PixelShaderObj ''Sampler'',
      SetShaderResourceView PixelShaderObj ''Rocks'' ''Debug/Assets/Textures/MossRock.tif'',
      SetShaderResourceView PixelShaderObj ''Wood'' ''Debug/Assets/Textures/TreeBark.tif'',
      SetData PixelShaderObj ''light'' (dirLight (Init env g)),
      SetData PixelShaderObj ''light2'' (dirLight2 (Init env g)),
      IASetPrimitiveTopology]"
proof -
  have sam: "sampler (Init env g) =
      \<lparr>Filter = D3D11_FILTER_ANISOTROPIC, AddressU = D3D11_TEXTURE_ADDRESS_WRAP,
       AddressV = D3D11_TEXTURE_ADDRESS_WRAP, AddressW = D3D11_TEXTURE_ADDRESS_WRAP,
       MaxAnisotropy = 16, MaxLODIsFloatMax = True\<rparr>"
    by (simp add: Init_unfold)
  have l1: "dirLight (Init env g) =
      \<lparr>AmbietColor = (0.1, 0.1, 0.1, 1.0), DiffuseColor = (1, 0, 0, 1), Direction = (0, - 1, 0)\<rparr>"
    by (simp add: Init_def Let_def logCall_simps)
  have l2: "dirLight2 (Init env g) =
      \<lparr>AmbietColor = (0.1, 0.1, 0.1, 1.0), DiffuseColor = (1, 1, 1, 1), Direction = (0, 0, 1)\<rparr>"
    by (simp add: Init_def Let_def logCall_simps)
  have noload: "filter (\<lambda>c. \<not> isLoadCall c) (attempts env r') = []" for r'
    by (simp add: attempts_def)
  have "filter (\<lambda>c. \<not> isLoadCall c) (newCalls g (Init env g)) =
     [CreateWICTextureFromFile ''Debug/Assets/Textures/MossRock.tif'',
      CreateWICTextureFromFile ''Debug/Assets/Textures/TreeBark.tif'',
      CreateSamplerState (sampler (Init env g)),
      CreateDepthStencilState (particleDepthState (Init env g)),
      CreateBlendState (particleBlendState (Init env g)),
      SetSamplerState PixelShaderObj ''Sampler'',
      SetShaderResourceView PixelShaderObj ''Rocks'' ''Debug/Assets/Textures/MossRock.tif'',
      SetShaderResourceView PixelShaderObj ''Wood'' ''Debug/Assets/Textures/TreeBark.tif'',
      SetData PixelShaderObj ''light'' (dirLight (Init env g)),
      SetData PixelShaderObj ''light2'' (dirLight2 (Init env g)),
      IASetPrimitiveTopology]"
    unfolding newCalls_append [OF Init_calls] filter_append noload sam l1 l2
    by simp
  moreover have "shaderFile (getShader r (Init env g)) =
     (if shaderFileLoads env (primaryPath r) then Some (primaryPath r)
      else if shaderFileLoads env (fallbackPath r) then Some (fallbackPath r) else None)"
    by (simp add: Init_shader resolved_def)
  ultimately show ?thesis
    using LoadShaders_attempts [of r g env] by (simp only: simp_thms)
qed

text \<open>
  C7. \<open>Game::OnResize\<close> has recomputed the camera's projection from the current width and
  height when it returns. After a resize to \<open>w\<close> by \<open>h\<close>, and whatever other handlers run
  before it, provided none is a further resize, a \<open>Draw\<close> hands the projection computed
  from \<open>w\<close> and \<open>h\<close> to each of its three material preparations and to the emitter's
  draw, and to nothing else; its aspect ratio is \<open>w / h\<close>.
\<close>

theorem OnResize_projection_before_next_Draw:
  assumes "list_all (\<lambda>ev. \<not> isResize ev) evs" and "0 < h"
  shows "GetProjectionMat (gameCamera (OnResize g)) = (width g, height g)
    \<and> GetProjectionMat (gameCamera (run evs (dispatch (ResizeEv w h) g))) = (w, h)
    \<and> map projectionUsed (newCalls (run evs (dispatch (ResizeEv w h) g))
          (Draw dt tt (run evs (dispatch (ResizeEv w h) g)))) =
       [None, None, None, None, Some (w, h), None, None, None, Some (w, h), None,
        None, None, Some (w, h), None, None, None, Some (w, h), None, None, None]
    \<and> aspectRatio (GetProjectionMat (gameCamera (run evs (dispatch (ResizeEv w h) g)))) = real w / real h"
proof -
  let ?g = "run evs (dispatch (ResizeEv w h) g)"
  have p: "projectionMat (gameCamera ?g) = (w, h)"
    using assms(1) by (simp add: run_projection dispatch_def OnResize_frame camera_projection)
  have "map projectionUsed (newCalls ?g (Draw dt tt ?g)) =
       [None, None, None, None, Some (w, h), None, None, None, Some (w, h), None,
        None, None, Some (w, h), None, None, None, Some (w, h), None, None, None]"
    unfolding newCalls_append [OF Draw_calls] p by simp
  moreover have "GetProjectionMat (gameCamera (OnResize g)) = (width g, height g)"
    by (simp add: GetProjectionMat_def OnResize_frame camera_projection)
  ultimately show ?thesis
    using p by (simp add: GetProjectionMat_def aspectRatio_def)
qed

theorem OnResize_projection_before_next_Draw_witness:
  "list_all (\<lambda>ev. \<not> isResize ev) [MouseMoveEv 1 3 4, UpdateEv \<lparr>escapeKeyState = 0, cameraVelocity = (0, 0, 1)\<rparr> 1 1]
   \<and> (0 :: nat) < 600
   \<and> GetProjectionMat (gameCamera (Init debugEnv (Game_new zeroGame))) = (1280, 720)
   \<and> aspectRatio (GetProjectionMat (gameCamera
        (run [MouseMoveEv 1 3 4, UpdateEv \<lparr>escapeKeyState = 0, cameraVelocity = (0, 0, 1)\<rparr> 1 1]
           (dispatch (ResizeEv 800 600) (Init debugEnv (Game_new zeroGame)))))) = 800 / 600"
  using OnResize_projection_before_next_Draw
    [of "[MouseMoveEv 1 3 4, UpdateEv \<lparr>escapeKeyState = 0, cameraVelocity = (0, 0, 1)\<rparr> 1 1]" 600
        "Init debugEnv (Game_new zeroGame)" 800 0 0]
  by (simp add: isResize_def Init_frame Game_new_def GetProjectionMat_def camera_projection aspectRatio_def)

text \<open>
  C8. One \<open>Game::Update\<close> reads the escape key exactly once, as its last step, and calls
  \<open>Quit\<close> right after exactly when the key state is non-zero; it makes no other outside
  call. Under the frame pump of the spec, which stops issuing \<open>Draw\<close> once a quit has been
  requested, no clear, draw or present call follows a \<open>Quit\<close> call.
\<close>

theorem Update_escape_requests_quit:
  "newCalls g (Update inp deltaTime totalTime g) =
     (if escapeKeyState inp = 0 then [GetAsyncKeyState_VK_ESCAPE] else [GetAsyncKeyState_VK_ESCAPE, QuitCall])
   \<and> quitRequested (Update inp deltaTime totalTime g) = (if escapeKeyState inp = 0 then quitRequested g else True)
   \<and> noDrawAfterQuit (newCalls g (framePump fs g))"
proof -
  obtain cs where "calls (framePump fs g) = calls g @ cs" "noDrawAfterQuit cs"
    using framePump_calls by blast
  then have "noDrawAfterQuit (newCalls g (framePump fs g))"
    by (simp add: newCalls_def)
  then show ?thesis
    by (simp add: newCalls_def Update_frame)
qed

section \<open>Facts about the emitter\<close>

lemma SpawnParticle_fields:
  "maxParticles (SpawnParticle e) = maxParticles e"
  "lifetime (SpawnParticle e) = lifetime e"
  "particlesPerSecond (SpawnParticle e) = particlesPerSecond e"
  "spawnCounter (SpawnParticle e) = spawnCounter e"
  "totalSpawned (SpawnParticle e) = Suc (totalSpawned e)"
  "length (particles (SpawnParticle e)) = length (particles e)"
  "nextSlot (SpawnParticle e) = (if Suc (nextSlot e) < maxParticles e then Suc (nextSlot e) else 0)"
  "particles (SpawnParticle e) = (particles e)[nextSlot e := Some \<lparr>age = 0, serial = totalSpawned e\<rparr>]"
  by (simp_all add: SpawnParticle_def)

lemma SpawnParticle_counter:
  "SpawnParticle (e\<lparr>spawnCounter := x\<rparr>) = (SpawnParticle e)\<lparr>spawnCounter := x\<rparr>"
  by (simp add: SpawnParticle_def)

lemma poolInv_counter: "poolInv (e\<lparr>spawnCounter := x\<rparr>) = poolInv e"
  by (simp add: poolInv_def slotSerial_def)

lemma young_pool:
  assumes "totalSpawned e < maxParticles e" "nextSlot e \<le> totalSpawned e"
    "maxParticles e dvd (totalSpawned e - nextSlot e)"
  shows "nextSlot e = totalSpawned e"
proof (rule ccontr)
  assume "nextSlot e \<noteq> totalSpawned e"
  with assms(2) have "0 < totalSpawned e - nextSlot e" by simp
  with assms(3) have "maxParticles e \<le> totalSpawned e - nextSlot e"
    by (rule_tac dvd_imp_le) simp_all
  with assms(1) show False by simp
qed

lemma poolInv_Spawn:
  assumes inv: "poolInv e"
  shows "poolInv (SpawnParticle e)"
proof -
  let ?k = "nextSlot e" and ?T = "totalSpawned e" and ?m = "maxParticles e"
  from inv have len: "length (particles e) = ?m" and k: "?k < ?m" and kT: "?k \<le> ?T"
    and dv: "?m dvd (?T - ?k)"
    and slots: "\<And>i. i < ?m \<Longrightarrow> slotSerial e i =
            (if i < ?k then Some (?T - ?k + i)
             else if ?m \<le> ?T then Some (?T - ?k - ?m + i) else None)"
    by (simp_all add: poolInv_def)
  have upd: "slotSerial (SpawnParticle e) i = (if i = ?k then Some ?T else slotSerial e i)"
    if "i < ?m" for i
    using that len k by (simp add: slotSerial_def SpawnParticle_fields nth_list_update)
  show ?thesis
  proof (cases "Suc ?k < ?m")
    case True
    have nofill: "?m \<le> Suc ?T \<longleftrightarrow> ?m \<le> ?T"
    proof
      assume a: "?m \<le> Suc ?T"
      show "?m \<le> ?T"
      proof (rule ccontr)
        assume "\<not> ?m \<le> ?T"
        then have "?T < ?m" by simp
        from young_pool [OF this kT dv] True a show False by simp
      qed
    qed simp
    have "slotSerial (SpawnParticle e) i =
            (if i < Suc ?k then Some (Suc ?T - Suc ?k + i)
             else if ?m \<le> Suc ?T then Some (Suc ?T - Suc ?k - ?m + i) else None)"
      if "i < ?m" for i
      using that kT by (simp add: upd slots nofill)
    with True len kT dv show ?thesis
      by (simp add: poolInv_def SpawnParticle_fields)
  next
    case False
    with k have m: "?m = Suc ?k" by simp
    have full: "?m \<le> Suc ?T" using m kT by simp
    have "Suc ?T = (?T - ?k) + ?m" using m kT by simp
    then have dv': "?m dvd Suc ?T" using dv by (simp only: dvd_add dvd_refl)
    have "slotSerial (SpawnParticle e) i = Some (Suc ?T - ?m + i)" if "i < ?m" for i
      using that kT m by (simp add: upd slots) 
    with False len k dv' full show ?thesis
      by (simp add: poolInv_def SpawnParticle_fields)
  qed
qed

lemma spawnLoop_unfold:
  "spawnLoop e = (if 1 \<le> spawnCounter e
      then spawnLoop ((SpawnParticle e)\<lparr>spawnCounter := spawnCounter e - 1\<rparr>) else e)"
  by (rule spawnLoop.simps)

lemma funpow_Spawn_counter:
  "(SpawnParticle ^^ n) (e\<lparr>spawnCounter := x\<rparr>) = ((SpawnParticle ^^ n) e)\<lparr>spawnCounter := x\<rparr>"
  by (induction n) (simp_all add: SpawnParticle_counter)

lemma spawnLoop_iterate:
  "spawnLoop e = ((SpawnParticle ^^ nat \<lfloor>spawnCounter e\<rfloor>) e)
      \<lparr>spawnCounter := spawnCounter e - real (nat \<lfloor>spawnCounter e\<rfloor>)\<rparr>"
proof (induction e rule: spawnLoop.induct)
  case (1 e)
  let ?c = "spawnCounter e"
  show ?case
  proof (cases "1 \<le> ?c")
    case False
    then have "nat \<lfloor>?c\<rfloor> = 0" by simp
    with False show ?thesis
      by (subst spawnLoop_unfold) simp
  next
    case True
    let ?e' = "(SpawnParticle e)\<lparr>spawnCounter := ?c - 1\<rparr>"
    from True have fl: "1 \<le> \<lfloor>?c\<rfloor>" by (simp add: le_floor_iff)
    have "\<And>z::int. 1 \<le> z \<Longrightarrow> nat z = Suc (nat (z - 1))" by arith
    from this [OF fl] have n: "nat \<lfloor>?c\<rfloor> = Suc (nat \<lfloor>?c - 1\<rfloor>)" by simp
    have "spawnLoop e = spawnLoop ?e'"
      using True by (subst spawnLoop_unfold) simp
    also have "\<dots> = ((SpawnParticle ^^ nat \<lfloor>?c - 1\<rfloor>) ?e')
        \<lparr>spawnCounter := (?c - 1) - real (nat \<lfloor>?c - 1\<rfloor>)\<rparr>"
      using "1.IH" [OF True] by simp
    also have "\<dots> = ((SpawnParticle ^^ nat \<lfloor>?c\<rfloor>) e)\<lparr>spawnCounter := ?c - real (nat \<lfloor>?c\<rfloor>)\<rparr>"
      unfolding n by (simp add: funpow_Spawn_counter funpow_swap1)
    finally show ?thesis .
  qed
qed

lemma funpow_Spawn_fields:
  "maxParticles ((SpawnParticle ^^ n) e) = maxParticles e"
  "lifetime ((SpawnParticle ^^ n) e) = lifetime e"
  "particlesPerSecond ((SpawnParticle ^^ n) e) = particlesPerSecond e"
  "spawnCounter ((SpawnParticle ^^ n) e) = spawnCounter e"
  "totalSpawned ((SpawnParticle ^^ n) e) = totalSpawned e + n"
  "length (particles ((SpawnParticle ^^ n) e)) = length (particles e)"
  by (induction n; simp add: SpawnParticle_fields)+

lemma poolInv_funpow: "poolInv e \<Longrightarrow> poolInv ((SpawnParticle ^^ n) e)"
  by (induction n) (simp_all add: poolInv_Spawn)

lemma spawnLoop_fields:
  "maxParticles (spawnLoop e) = maxParticles e"
  "lifetime (spawnLoop e) = lifetime e"
  "particlesPerSecond (spawnLoop e) = particlesPerSecond e"
  "spawnCounter (spawnLoop e) = spawnCounter e - real (nat \<lfloor>spawnCounter e\<rfloor>)"
  "totalSpawned (spawnLoop e) = totalSpawned e + nat \<lfloor>spawnCounter e\<rfloor>"
  "length (particles (spawnLoop e)) = length (particles e)"
  by (simp_all add: spawnLoop_iterate [of e] funpow_Spawn_fields)

lemma spawnLoop_particles:
  "particles (spawnLoop e) = particles ((SpawnParticle ^^ nat \<lfloor>spawnCounter e\<rfloor>) e)"
  by (simp add: spawnLoop_iterate [of e])

lemma poolInv_spawnLoop: "poolInv e \<Longrightarrow> poolInv (spawnLoop e)"
  by (simp add: spawnLoop_iterate [of e] poolInv_counter poolInv_funpow)

lemma ageParticle_serial:
  "(case ageParticle l dt s of None \<Rightarrow> None | Some p \<Rightarrow> Some (serial p)) =
   (case s of None \<Rightarrow> None | Some p \<Rightarrow> Some (serial p))"
  by (simp add: ageParticle_def split: option.split)

lemma poolInv_age:
  "poolInv (e\<lparr>particles := map (ageParticle l dt) (particles e)\<rparr>) = poolInv e"
proof -
  have "slotSerial (e\<lparr>particles := map (ageParticle l dt) (particles e)\<rparr>) i = slotSerial e i"
    if "i < length (particles e)" for i
    using that by (simp add: slotSerial_def ageParticle_serial)
  then show ?thesis
    by (auto simp add: poolInv_def)
qed

lemma Emitter_Update_fields:
  "maxParticles (Emitter_Update dt e) = maxParticles e"
  "lifetime (Emitter_Update dt e) = lifetime e"
  "particlesPerSecond (Emitter_Update dt e) = particlesPerSecond e"
  "spawnCounter (Emitter_Update dt e) =
     spawnCounter e + particlesPerSecond e * dt - real (nat \<lfloor>spawnCounter e + particlesPerSecond e * dt\<rfloor>)"
  "totalSpawned (Emitter_Update dt e) =
     totalSpawned e + nat \<lfloor>spawnCounter e + particlesPerSecond e * dt\<rfloor>"
  "length (particles (Emitter_Update dt e)) = length (particles e)"
  by (simp_all add: Emitter_Update_def Let_def spawnLoop_fields)

lemma poolInv_Update: "poolInv e \<Longrightarrow> poolInv (Emitter_Update dt e)"
  by (simp add: Emitter_Update_def Let_def poolInv_age poolInv_spawnLoop poolInv_counter)

lemma updates_fields:
  "maxParticles (updates dts e) = maxParticles e"
  "lifetime (updates dts e) = lifetime e"
  "length (particles (updates dts e)) = length (particles e)"
  by (induction dts arbitrary: e; simp add: Emitter_Update_fields)+

lemma poolInv_updates: "poolInv e \<Longrightarrow> poolInv (updates dts e)"
  by (induction dts arbitrary: e) (simp_all add: poolInv_Update)

lemma poolInv_new:
  "0 < maxP \<Longrightarrow> poolInv (Emitter_new maxP pps life sSize eSize sColor eColor sVel sPos sAcc)"
  by (simp add: poolInv_def Emitter_new_def slotSerial_def)

lemma fresh_spawns:
  "n \<le> maxP \<Longrightarrow>
   particles ((SpawnParticle ^^ n) (Emitter_new maxP pps life sSize eSize sColor eColor sVel sPos sAcc)) =
     map (\<lambda>i. Some \<lparr>age = 0, serial = i\<rparr>) [0..<n] @ replicate (maxP - n) None
   \<and> nextSlot ((SpawnParticle ^^ n) (Emitter_new maxP pps life sSize eSize sColor eColor sVel sPos sAcc)) =
     (if n < maxP then n else 0)"
proof (induction n)
  case 0
  show ?case by (simp add: Emitter_new_def)
next
  case (Suc n)
  let ?e = "(SpawnParticle ^^ n) (Emitter_new maxP pps life sSize eSize sColor eColor sVel sPos sAcc)"
  from Suc have n: "n < maxP" by simp
  with Suc have ps: "particles ?e = map (\<lambda>i. Some \<lparr>age = 0, serial = i\<rparr>) [0..<n] @ replicate (maxP - n) None"
    and k: "nextSlot ?e = n"
    by simp_all
  have T: "totalSpawned ?e = n"
    by (simp add: funpow_Spawn_fields Emitter_new_def)
  have m: "maxParticles ?e = maxP"
    by (simp add: funpow_Spawn_fields Emitter_new_def)
  from n have r: "replicate (maxP - n) (None :: Particle option) = None # replicate (maxP - Suc n) None"
    by (simp add: Suc_diff_Suc flip: replicate_Suc)
  have "particles (SpawnParticle ?e) =
      map (\<lambda>i. Some \<lparr>age = 0, serial = i\<rparr>) [0..<Suc n] @ replicate (maxP - Suc n) None"
    by (simp add: SpawnParticle_fields ps k T r list_update_append)
  moreover have "nextSlot (SpawnParticle ?e) = (if Suc n < maxP then Suc n else 0)"
    by (simp add: SpawnParticle_fields k m)
  ultimately show ?case by simp
qed

lemma liveCount_fresh_update:
  assumes life: "0 < life" "dt < life" and n: "nat \<lfloor>pps * dt\<rfloor> \<le> maxP"
  shows "liveCount (Emitter_Update dt (Emitter_new maxP pps life sSize eSize sColor eColor sVel sPos sAcc))
    = nat \<lfloor>pps * dt\<rfloor>"
proof -
  let ?e0 = "Emitter_new maxP pps life sSize eSize sColor eColor sVel sPos sAcc"
  let ?n = "nat \<lfloor>pps * dt\<rfloor>"
  have c: "spawnCounter (?e0\<lparr>spawnCounter := spawnCounter ?e0 + particlesPerSecond ?e0 * dt\<rparr>) = pps * dt"
    by (simp add: Emitter_new_def)
  have "particles (spawnLoop (?e0\<lparr>spawnCounter := spawnCounter ?e0 + particlesPerSecond ?e0 * dt\<rparr>))
      = particles ((SpawnParticle ^^ ?n) ?e0)"
    unfolding spawnLoop_particles c by (simp add: funpow_Spawn_counter)
  also have "\<dots> = map (\<lambda>i. Some \<lparr>age = 0, serial = i\<rparr>) [0..<?n] @ replicate (maxP - ?n) None"
    using fresh_spawns [OF n] by simp
  finally have ps: "particles (spawnLoop (?e0\<lparr>spawnCounter := spawnCounter ?e0 + particlesPerSecond ?e0 * dt\<rparr>))
      = map (\<lambda>i. Some \<lparr>age = 0, serial = i\<rparr>) [0..<?n] @ replicate (maxP - ?n) None" .
  have l: "lifetime (spawnLoop (?e0\<lparr>spawnCounter := spawnCounter ?e0 + particlesPerSecond ?e0 * dt\<rparr>)) = life"
    by (simp add: spawnLoop_fields Emitter_new_def)
  from life show ?thesis
    by (simp add: liveCount_def Emitter_Update_def Let_def ps l ageParticle_def isLive_def o_def)
qed

lemma liveCount_le: "liveCount e \<le> length (particles e)"
  by (simp add: liveCount_def)

lemma occupied_split:
  assumes "\<forall>s \<in> set ps. s \<noteq> None"
  shows "length (filter (isLive l) ps)
     + length (filter (\<lambda>s. case s of None \<Rightarrow> False | Some p \<Rightarrow> l \<le> age p) ps) = length ps"
  using assms
proof (induction ps)
  case Nil
  show ?case by simp
next
  case (Cons s ps)
  then show ?case
    by (cases s) (auto simp add: isLive_def)
qed

lemma poolInv_full:
  assumes inv: "poolInv e" and full: "maxParticles e \<le> totalSpawned e"
  shows "\<forall>s \<in> set (particles e). s \<noteq> None"
    and "\<forall>i<maxParticles e. \<exists>p q. particles e ! nextSlot e = Some p \<and> particles e ! i = Some q
           \<and> serial p = totalSpawned e - maxParticles e \<and> serial p \<le> serial q"
proof -
  let ?k = "nextSlot e" and ?T = "totalSpawned e" and ?m = "maxParticles e"
  from inv have len: "length (particles e) = ?m" and k: "?k < ?m" and kT: "?k \<le> ?T"
    and dv: "?m dvd (?T - ?k)"
    and slots: "\<And>i. i < ?m \<Longrightarrow> slotSerial e i =
            (if i < ?k then Some (?T - ?k + i)
             else if ?m \<le> ?T then Some (?T - ?k - ?m + i) else None)"
    by (simp_all add: poolInv_def)
  from k full kT have "0 < ?T - ?k" by simp
  with dv have big: "?m \<le> ?T - ?k"
    by (rule_tac dvd_imp_le) simp_all
  have occ: "\<exists>q. particles e ! i = Some q \<and> serial q = (if i < ?k then ?T - ?k + i else ?T - ?k - ?m + i)"
    if "i < ?m" for i
    using slots [OF that] full by (auto simp add: slotSerial_def split: option.splits if_splits)
  show "\<forall>s \<in> set (particles e). s \<noteq> None"
  proof
    fix s assume "s \<in> set (particles e)"
    then obtain i where i: "i < ?m" "particles e ! i = s"
      using len by (auto simp add: in_set_conv_nth)
    from occ [OF i(1)] i(2) show "s \<noteq> None" by auto
  qed
  show "\<forall>i<?m. \<exists>p q. particles e ! ?k = Some p \<and> particles e ! i = Some q
           \<and> serial p = ?T - ?m \<and> serial p \<le> serial q"
  proof (intro allI impI)
    fix i assume i: "i < ?m"
    from occ [OF k] obtain p where p: "particles e ! ?k = Some p" "serial p = ?T - ?k - ?m + ?k"
      by auto
    from occ [OF i] obtain q where q: "particles e ! i = Some q"
      "serial q = (if i < ?k then ?T - ?k + i else ?T - ?k - ?m + i)"
      by auto
    from p big kT have sp: "serial p = ?T - ?m" by simp
    moreover from q sp big kT k i have "serial p \<le> serial q" by (auto split: if_splits)
    ultimately show "\<exists>p q. particles e ! ?k = Some p \<and> particles e ! i = Some q
           \<and> serial p = ?T - ?m \<and> serial p \<le> serial q"
      using p q by blast
  qed
qed

lemmas emitter_eval = Emitter_Update_def Let_def spawnLoop.simps SpawnParticle_def
  ageParticle_def liveCount_def isLive_def Emitter_new_def expiredCount_def eval_nat_numeral

section \<open>The claims settled on the camera and the emitter of the spec\<close>

text \<open>
  C5. After each call of a non-empty sequence of \<open>RotateCamera\<close> calls, from any camera
  state and with any arguments, the pitch accumulator lies within -89 and 89 degrees
  (every prefix of a sequence is itself a sequence, so the bound holds after each call).
  The same holds for the camera of a game that \<open>Init\<close> has set up, after any sequence of
  handlers.
\<close>

theorem RotateCamera_pitch_clamped:
  "(- 89 \<le> pitch (rotateAll (d # ds) c) \<and> pitch (rotateAll (d # ds) c) \<le> 89)
   \<and> (- 89 \<le> pitch (gameCamera (run evs (Init env g)))
        \<and> pitch (gameCamera (run evs (Init env g))) \<le> 89)"
proof -
  have "pitchOK (gameCamera (Init env g))"
    by (simp add: Init_frame camera_pitch pitchOK_def)
  then have "pitchOK (gameCamera (run evs (Init env g)))"
    by (rule run_pitch)
  with rotateAll_pitchOK [of d ds c] show ?thesis
    by (simp add: pitchOK_def)
qed

text \<open>
  C1. One \<open>update(deltaTime)\<close> adds \<open>particlesPerSecond * deltaTime\<close> to the spawn
  counter and spawns one particle for each whole unit the counter then holds, taking 1.0
  off for each: with \<open>c\<close> the counter after the addition, it spawns \<open>floor c\<close> particles
  (none when \<open>c < 1\<close>) and leaves \<open>c - floor c\<close>, which is below 1. For an emitter
  constructed with 1000 particles at most, 100 per second and a lifetime of 5, whatever
  its other arguments, one \<open>update(1.0)\<close> leaves exactly 100 particles live and the
  counter at 0; so it is for the emitter \<open>Game::Init\<close> constructs, after one
  \<open>Game::Update\<close> with \<open>deltaTime = 1\<close>.
\<close>

theorem Emitter_Update_spawns_per_unit:
  "spawnCounter (Emitter_Update dt e) =
     spawnCounter e + particlesPerSecond e * dt
       - real (nat \<lfloor>spawnCounter e + particlesPerSecond e * dt\<rfloor>)
   \<and> totalSpawned (Emitter_Update dt e) =
     totalSpawned e + nat \<lfloor>spawnCounter e + particlesPerSecond e * dt\<rfloor>
   \<and> spawnCounter (Emitter_Update dt e) < 1
   \<and> liveCount (Emitter_Update 1 (Emitter_new 1000 100 5 sSize eSize sColor eColor sVel sPos sAcc)) = 100
   \<and> spawnCounter (Emitter_Update 1 (Emitter_new 1000 100 5 sSize eSize sColor eColor sVel sPos sAcc)) = 0
   \<and> liveCount (emitter (Update inp 1 totalTime (Init env g))) = 100
   \<and> spawnCounter (emitter (Update inp 1 totalTime (Init env g))) = 0"
proof -
  let ?c = "spawnCounter e + particlesPerSecond e * dt"
  have "?c - real (nat \<lfloor>?c\<rfloor>) < 1"
  proof (cases "0 \<le> ?c")
    case True
    then have "real (nat \<lfloor>?c\<rfloor>) = of_int \<lfloor>?c\<rfloor>" by simp
    then show ?thesis by linarith
  next
    case False
    then show ?thesis by simp
  qed
  then have small: "spawnCounter (Emitter_Update dt e) < 1"
    by (simp add: Emitter_Update_fields)
  have live: "liveCount (Emitter_Update 1 (Emitter_new 1000 100 5 a b c d v p q)) = 100" for a b c d v p q
    using liveCount_fresh_update [of 5 1 100 1000 a b c d v p q] by simp
  have cnt: "spawnCounter (Emitter_Update 1 (Emitter_new 1000 100 5 a b c d v p q)) = 0" for a b c d v p q
    by (simp add: Emitter_Update_fields) (simp add: Emitter_new_def)
  have "emitter (Update inp 1 totalTime (Init env g)) =
      Emitter_Update 1 (Emitter_new 1000 100 5 0.1 5.0 (1, 0.1, 0.1, 0.2) (1, 0.6, 0.1, 0) (- 2, 2, 0) (2, 0, 0) (0, - 1, 0))"
    by (simp add: Update_frame Init_frame)
  with live cnt small show ?thesis
    by (simp add: Emitter_Update_fields)
qed

text \<open>
  C2, as stated, fails: ten updates of one second fill a pool of capacity 10 at one
  particle per second, the eleventh spawn reuses slot 0, yet with a lifetime of 5 only
  the four youngest particles are live, not ten. (The emitter of \<open>Game::Init\<close>, 1000
  slots at 100 per second with the same lifetime, is this one a hundredfold.)
\<close>

theorem pool_not_always_full_counterexample:
  "maxParticles (updates [1, 1, 1, 1, 1, 1, 1, 1, 1, 1, 1]
       (Emitter_new 10 1 5 0.1 5 (1, 0.1, 0.1, 0.2) (1, 0.6, 0.1, 0) (- 2, 2, 0) (2, 0, 0) (0, - 1, 0)))
     < totalSpawned (updates [1, 1, 1, 1, 1, 1, 1, 1, 1, 1, 1]
       (Emitter_new 10 1 5 0.1 5 (1, 0.1, 0.1, 0.2) (1, 0.6, 0.1, 0) (- 2, 2, 0) (2, 0, 0) (0, - 1, 0)))
   \<and> liveCount (updates [1, 1, 1, 1, 1, 1, 1, 1, 1, 1, 1]
       (Emitter_new 10 1 5 0.1 5 (1, 0.1, 0.1, 0.2) (1, 0.6, 0.1, 0) (- 2, 2, 0) (2, 0, 0) (0, - 1, 0))) = 4
   \<and> maxParticles (updates [1, 1, 1, 1, 1, 1, 1, 1, 1, 1, 1]
       (Emitter_new 10 1 5 0.1 5 (1, 0.1, 0.1, 0.2) (1, 0.6, 0.1, 0) (- 2, 2, 0) (2, 0, 0) (0, - 1, 0))) = 10"
  by (simp add: emitter_eval)

text \<open>
  C2, amended. After construction and any sequence of updates, the number of live
  particles never exceeds \<open>maxParticles\<close> and the pool has exactly \<open>maxParticles\<close> slots.
  Once at least \<open>maxParticles\<close> particles have been spawned, every slot is occupied
  (a particle past its lifetime is not freed); the live particles are the occupants that
  have not reached the lifetime, so that live and expired together number
  \<open>maxParticles\<close>; and the slot the next spawn reuses holds the oldest particle in the
  pool: its serial is \<open>totalSpawned - maxParticles\<close> and no occupant has a smaller one.
\<close>

theorem pool_recycles_oldest_first:
  assumes "e = updates dts (Emitter_new maxP pps life sSize eSize sColor eColor sVel sPos sAcc)"
  shows "liveCount e \<le> maxP \<and> length (particles e) = maxP
    \<and> (maxP \<le> totalSpawned e \<longrightarrow>
          list_all (\<lambda>s. s \<noteq> None) (particles e)
          \<and> liveCount e + expiredCount e = maxP
          \<and> (\<forall>i<maxP. \<exists>p q. particles e ! nextSlot e = Some p \<and> particles e ! i = Some q
                \<and> serial p = totalSpawned e - maxP \<and> serial p \<le> serial q))"
proof -
  let ?e0 = "Emitter_new maxP pps life sSize eSize sColor eColor sVel sPos sAcc"
  have m: "maxParticles e = maxP" and len: "length (particles e) = maxP" and l: "lifetime e = life"
    unfolding assms by (simp_all add: updates_fields Emitter_new_def)
  have le: "liveCount e \<le> maxP"
    using liveCount_le [of e] len by simp
  show ?thesis
  proof (cases "maxP = 0")
    case True
    with len show ?thesis
      by (simp add: liveCount_def expiredCount_def)
  next
    case False
    then have "poolInv ?e0" by (simp add: poolInv_new)
    then have inv: "poolInv e"
      unfolding assms by (rule poolInv_updates)
    show ?thesis
    proof (cases "maxP \<le> totalSpawned e")
      case notfull: False
      with le len show ?thesis by simp
    next
      case True
      with m have full: "maxParticles e \<le> totalSpawned e" by simp
      note occ = poolInv_full(1) [OF inv full]
      from occ have "list_all (\<lambda>s. s \<noteq> None) (particles e)"
        by (simp add: list_all_iff)
      moreover from occupied_split [OF occ, of "lifetime e"] len
      have "liveCount e + expiredCount e = maxP"
        by (simp add: liveCount_def expiredCount_def)
      moreover note poolInv_full(2) [OF inv full, unfolded m]
      ultimately show ?thesis
        using le len by blast
    qed
  qed
qed

theorem pool_recycles_oldest_first_witness:
  "(10 :: nat) \<le> totalSpawned (updates [1, 1, 1, 1, 1, 1, 1, 1, 1, 1, 1]
       (Emitter_new 10 1 5 0.1 5 (1, 0.1, 0.1, 0.2) (1, 0.6, 0.1, 0) (- 2, 2, 0) (2, 0, 0) (0, - 1, 0)))
   \<and> liveCount (updates [1, 1, 1, 1, 1, 1, 1, 1, 1, 1, 1]
       (Emitter_new 10 1 5 0.1 5 (1, 0.1, 0.1, 0.2) (1, 0.6, 0.1, 0) (- 2, 2, 0) (2, 0, 0) (0, - 1, 0)))
     + expiredCount (updates [1, 1, 1, 1, 1, 1, 1, 1, 1, 1, 1]
       (Emitter_new 10 1 5 0.1 5 (1, 0.1, 0.1, 0.2) (1, 0.6, 0.1, 0) (- 2, 2, 0) (2, 0, 0) (0, - 1, 0))) = 10
   \<and> list_all (\<lambda>s. s \<noteq> None) (particles (updates [1, 1, 1, 1, 1, 1, 1, 1, 1, 1, 1]
       (Emitter_new 10 1 5 0.1 5 (1, 0.1, 0.1, 0.2) (1, 0.6, 0.1, 0) (- 2, 2, 0) (2, 0, 0) (0, - 1, 0))))"
proof -
  have T: "totalSpawned (updates [1, 1, 1, 1, 1, 1, 1, 1, 1, 1, 1]
       (Emitter_new 10 1 5 0.1 5 (1, 0.1, 0.1, 0.2) (1, 0.6, 0.1, 0) (- 2, 2, 0) (2, 0, 0) (0, - 1, 0))) = 11"
    by (simp add: Emitter_Update_fields Emitter_new_def)
  from pool_recycles_oldest_first [OF refl, where dts = "[1, 1, 1, 1, 1, 1, 1, 1, 1, 1, 1]"
      and maxP = 10 and pps = 1 and life = 5 and sSize = "0.1" and eSize = 5
      and sColor = "(1, 0.1, 0.1, 0.2)" and eColor = "(1, 0.6, 0.1, 0)"
      and sVel = "(- 2, 2, 0)" and sPos = "(2, 0, 0)" and sAcc = "(0, - 1, 0)"]
  show ?thesis
    unfolding T by simp
qed

text \<open>
  C3. The interpolation parameter of a particle is \<open>age / lifetime\<close> clamped to 0 and 1,
  and it is the parameter with which the particle's size, each of the four components of
  its colour, and so its opacity, are interpolated between the start and the end value.
  For a positive lifetime it is \<open>age / lifetime\<close> itself for ages from 0 to
  the lifetime, and it is non-decreasing in the age. It depends on nothing but the age
  and the emitter's lifetime, which no update changes; a spawn into a slot, whatever the
  slot held before, puts a particle of age 0 and parameter 0 there.
\<close>

theorem interpolation_parameter_clamped_monotone:
  "interpolationT e p = max 0 (min 1 (age p / lifetime e))
   \<and> particleSize e p = startSize e + (endSize e - startSize e) * max 0 (min 1 (age p / lifetime e))
   \<and> particleColor e p =
       (fst (startColor e) + (fst (endColor e) - fst (startColor e)) * max 0 (min 1 (age p / lifetime e)),
        fst (snd (startColor e))
          + (fst (snd (endColor e)) - fst (snd (startColor e))) * max 0 (min 1 (age p / lifetime e)),
        fst (snd (snd (startColor e)))
          + (fst (snd (snd (endColor e))) - fst (snd (snd (startColor e)))) * max 0 (min 1 (age p / lifetime e)),
        snd (snd (snd (startColor e)))
          + (snd (snd (snd (endColor e))) - snd (snd (snd (startColor e)))) * max 0 (min 1 (age p / lifetime e)))
   \<and> particleOpacity e p = snd (snd (snd (startColor e)))
        + (snd (snd (snd (endColor e))) - snd (snd (snd (startColor e)))) * max 0 (min 1 (age p / lifetime e))
   \<and> (0 < lifetime e \<and> 0 \<le> age p \<and> age p \<le> lifetime e \<longrightarrow> interpolationT e p = age p / lifetime e)
   \<and> (0 < lifetime e \<and> age p \<le> age q \<longrightarrow> interpolationT e p \<le> interpolationT e q)
   \<and> lifetime (updates dts e) = lifetime e
   \<and> (nextSlot e < length (particles e) \<longrightarrow>
        (\<exists>p'. particles (SpawnParticle e) ! nextSlot e = Some p' \<and> age p' = 0
               \<and> interpolationT (SpawnParticle e) p' = 0))"
proof -
  have t: "interpolationT e p = max 0 (min 1 (age p / lifetime e))" for e p
    by (simp add: interpolationT_def Let_def max_def min_def)
  have mono: "interpolationT e p \<le> interpolationT e q" if "0 < lifetime e" "age p \<le> age q"
  proof -
    from that have "age p / lifetime e \<le> age q / lifetime e"
      by (simp add: divide_right_mono)
    then show ?thesis
      unfolding t by (simp add: max_def min_def)
  qed
  have exact: "interpolationT e p = age p / lifetime e" if "0 < lifetime e" "0 \<le> age p" "age p \<le> lifetime e"
    using that unfolding t by (simp add: max_def min_def)
  have op: "particleOpacity e p = snd (snd (snd (startColor e)))
        + (snd (snd (snd (endColor e))) - snd (snd (snd (startColor e)))) * max 0 (min 1 (age p / lifetime e))"
    by (cases "startColor e"; cases "endColor e")
      (simp add: particleOpacity_def particleColor_def lerp_def Let_def t)
  have col: "particleColor e p =
       (fst (startColor e) + (fst (endColor e) - fst (startColor e)) * max 0 (min 1 (age p / lifetime e)),
        fst (snd (startColor e))
          + (fst (snd (endColor e)) - fst (snd (startColor e))) * max 0 (min 1 (age p / lifetime e)),
        fst (snd (snd (startColor e)))
          + (fst (snd (snd (endColor e))) - fst (snd (snd (startColor e)))) * max 0 (min 1 (age p / lifetime e)),
        snd (snd (snd (startColor e)))
          + (snd (snd (snd (endColor e))) - snd (snd (snd (startColor e)))) * max 0 (min 1 (age p / lifetime e)))"
    by (cases "startColor e"; cases "endColor e")
      (simp add: particleColor_def lerp_def Let_def t)
  have spawn: "\<exists>p'. particles (SpawnParticle e) ! nextSlot e = Some p' \<and> age p' = 0
               \<and> interpolationT (SpawnParticle e) p' = 0" if "nextSlot e < length (particles e)"
    using that by (simp add: SpawnParticle_fields interpolationT_def)
  have rest: "interpolationT e p = max 0 (min 1 (age p / lifetime e))
   \<and> particleSize e p = startSize e + (endSize e - startSize e) * max 0 (min 1 (age p / lifetime e))
   \<and> (0 < lifetime e \<and> 0 \<le> age p \<and> age p \<le> lifetime e \<longrightarrow> interpolationT e p = age p / lifetime e)
   \<and> (0 < lifetime e \<and> age p \<le> age q \<longrightarrow> interpolationT e p \<le> interpolationT e q)
   \<and> lifetime (updates dts e) = lifetime e"
    using mono exact
    by (simp add: t particleSize_def lerp_def updates_fields del: max_less_iff_conj min_less_iff_conj)
  from rest col op spawn show ?thesis
    by blast
qed

theorem interpolation_parameter_clamped_monotone_witness:
  "0 < lifetime (Emitter_new 1000 100 5 0.1 5 (1, 0.1, 0.1, 0.2) (1, 0.6, 0.1, 0) (- 2, 2, 0) (2, 0, 0) (0, - 1, 0))
   \<and> age \<lparr>age = 1, serial = 0\<rparr> \<le> age \<lparr>age = 2, serial = 1\<rparr>
   \<and> interpolationT (Emitter_new 1000 100 5 0.1 5 (1, 0.1, 0.1, 0.2) (1, 0.6, 0.1, 0) (- 2, 2, 0) (2, 0, 0) (0, - 1, 0))
        \<lparr>age = 1, serial = 0\<rparr> = 1 / 5
   \<and> interpolationT (Emitter_new 1000 100 5 0.1 5 (1, 0.1, 0.1, 0.2) (1, 0.6, 0.1, 0) (- 2, 2, 0) (2, 0, 0) (0, - 1, 0))
        \<lparr>age = 1, serial = 0\<rparr>
      \<le> interpolationT (Emitter_new 1000 100 5 0.1 5 (1, 0.1, 0.1, 0.2) (1, 0.6, 0.1, 0) (- 2, 2, 0) (2, 0, 0) (0, - 1, 0))
        \<lparr>age = 2, serial = 1\<rparr>
   \<and> particleColor (Emitter_new 1000 100 5 0.1 5 (1, 0.1, 0.1, 0.2) (1, 0.6, 0.1, 0) (- 2, 2, 0) (2, 0, 0) (0, - 1, 0))
        \<lparr>age = 1, serial = 0\<rparr> = (1, 1 / 5, 1 / 10, 4 / 25)
   \<and> nextSlot (Emitter_new 1000 100 5 0.1 5 (1, 0.1, 0.1, 0.2) (1, 0.6, 0.1, 0) (- 2, 2, 0) (2, 0, 0) (0, - 1, 0))
      < length (particles (Emitter_new 1000 100 5 0.1 5 (1, 0.1, 0.1, 0.2) (1, 0.6, 0.1, 0) (- 2, 2, 0) (2, 0, 0) (0, - 1, 0)))"
  using interpolation_parameter_clamped_monotone
    [of "Emitter_new 1000 100 5 0.1 5 (1, 0.1, 0.1, 0.2) (1, 0.6, 0.1, 0) (- 2, 2, 0) (2, 0, 0) (0, - 1, 0)"
        "\<lparr>age = 1, serial = 0\<rparr>" "\<lparr>age = 2, serial = 1\<rparr>" "[]"]
  by (simp add: Emitter_new_def)

end
